theory Spec2Isabelle
  imports Complex_Main
begin

section \<open>The building system of \<^verbatim>\<open>/js/gameplay/BuildingSystem.js\<close>\<close>

text \<open>
  The class \<^verbatim>\<open>BuildingSystem\<close> (in \<^verbatim>\<open>src/AssetLoader.js\<close>, lines 653 to 1045) previews,
  validates, places, builds up, damages and destroys grid-aligned structures.

  JavaScript numbers are modelled as \<^typ>\<open>real\<close>: rounding error, overflow, infinities
  and \<^verbatim>\<open>NaN\<close> of IEEE doubles are outside the model. Where the source divides, the
  theorems ask for a divisor that is not zero, since \<open>x / 0 = 0\<close> in HOL while JavaScript
  gives an infinity or \<^verbatim>\<open>NaN\<close>.
\<close>

subsection \<open>Vectors and Euler angles\<close>

text \<open>\<^verbatim>\<open>THREE.Vector3\<close> and \<^verbatim>\<open>THREE.Euler\<close> (angles in radians, order XYZ), as values.\<close>

datatype vector3 = Vector3 (vec_x: real) (vec_y: real) (vec_z: real)

datatype euler = Euler (eul_x: real) (eul_y: real) (eul_z: real)

subsection \<open>Grid snapping and rotation from the surface normal\<close>

text \<open>
  \<^verbatim>\<open>snapToGrid(position)\<close>, lines 825 to 831, in exact arithmetic. The grid size is
  the field \<^verbatim>\<open>this.gridSize\<close>, here the first argument. \<^verbatim>\<open>Math.round\<close> rounds to the
  nearest integer, a half towards plus infinity, which is \<^const>\<open>round\<close> of HOL
  (\<open>round x = \<lfloor>x + 1/2\<rfloor>\<close>). The doubles of the source compute the same value
  wherever the division and the multiplication are exact; \<open>snapAxisDouble\<close> and
  \<open>snapToGridDouble\<close> below follow the doubles, rounding included.
\<close>

definition snapAxis :: "real \<Rightarrow> real \<Rightarrow> real" where
  "snapAxis gridSize v = of_int (round (v / gridSize)) * gridSize"

definition snapToGrid :: "real \<Rightarrow> vector3 \<Rightarrow> vector3" where
  "snapToGrid gridSize position =
     Vector3 (snapAxis gridSize (vec_x position))
             (snapAxis gridSize (vec_y position))
             (snapAxis gridSize (vec_z position))"

text \<open>\<^verbatim>\<open>calculateRotationFromNormal(normal)\<close>, lines 833 to 848.\<close>

definition calculateRotationFromNormal :: "vector3 \<Rightarrow> euler" where
  "calculateRotationFromNormal normal =
     (if \<bar>vec_y normal\<bar> > 0.9 then Euler 0 0 0
      else if \<bar>vec_x normal\<bar> > 0.9 then Euler 0 (pi / 2) 0
      else Euler 0 0 0)"

text \<open>The three axes, the component of a vector along one, and unit length.\<close>

datatype axis = AxisX | AxisY | AxisZ

fun component :: "axis \<Rightarrow> vector3 \<Rightarrow> real" where
  "component AxisX v = vec_x v"
| "component AxisY v = vec_y v"
| "component AxisZ v = vec_z v"

definition unitLength :: "vector3 \<Rightarrow> bool" where
  "unitLength v = ((vec_x v)\<^sup>2 + (vec_y v)\<^sup>2 + (vec_z v)\<^sup>2 = 1)"

subsection \<open>Grid snapping in double precision\<close>

text \<open>
  A JavaScript number is an IEEE-754 double: a finite double is \<open>m * 2\<^sup>e\<close> for
  integers \<open>\<bar>m\<bar> < 2\<^sup>5\<^sup>3\<close> and \<open>- 1074 \<le> e \<le> 971\<close>. Division and multiplication
  return the double nearest to the exact result, a tie going to the double with the even
  \<open>m\<close>. \<open>roundTiesToEven\<close> is that rule on the integers; \<open>binade x\<close> is the exponent
  \<open>e\<close> with \<open>2\<^sup>e \<le> \<bar>x\<bar> < 2\<^sup>e\<^sup>+\<^sup>1\<close>, not below \<open>- 1022\<close> (the subnormal range);
  \<open>ulp x\<close> is the distance between neighbouring doubles there; \<open>toDouble x\<close> is the
  double nearest to \<open>x\<close>, and \<open>None\<close> when the rounded magnitude reaches \<open>2\<^sup>1\<^sup>0\<^sup>2\<^sup>4\<close>,
  where JavaScript gives an infinity. Infinities and \<^verbatim>\<open>NaN\<close> are not values of the model.
\<close>

definition roundTiesToEven :: "real \<Rightarrow> int" where
  "roundTiesToEven y =
     (let f = \<lfloor>y\<rfloor>; d = y - of_int f
      in if d < 1 / 2 then f else if d > 1 / 2 then f + 1 else if even f then f else f + 1)"

definition binade :: "real \<Rightarrow> int" where
  "binade x = (if x = 0 then - 1022 else max \<lfloor>log 2 \<bar>x\<bar>\<rfloor> (- 1022))"

definition ulp :: "real \<Rightarrow> real" where
  "ulp x = 2 powr of_int (binade x - 52)"

definition toDouble :: "real \<Rightarrow> real option" where
  "toDouble x =
     (let r = of_int (roundTiesToEven (x / ulp x)) * ulp x
      in if \<bar>r\<bar> \<ge> 2 ^ 1024 then None else Some r)"

text \<open>
  One coordinate of \<^verbatim>\<open>snapToGrid\<close>, lines 827 to 829, as the doubles compute it:
  \<^verbatim>\<open>Math.round(position.x / this.gridSize) * this.gridSize\<close>. The quotient is rounded to
  a double, \<^verbatim>\<open>Math.round\<close> of a double is exact (the nearest integer, a half towards plus
  infinity, is again a double), and the product is rounded to a double. A grid size of
  zero gives an infinity or \<^verbatim>\<open>NaN\<close> in JavaScript: \<open>None\<close> here.
\<close>

definition snapAxisDouble :: "real \<Rightarrow> real \<Rightarrow> real option" where
  "snapAxisDouble g v =
     (if g = 0 then None
      else case toDouble (v / g) of
             None \<Rightarrow> None
           | Some q \<Rightarrow> toDouble (of_int (round q) * g))"

definition snapToGridDouble :: "real \<Rightarrow> vector3 \<Rightarrow> vector3 option" where
  "snapToGridDouble g p =
     (case snapAxisDouble g (vec_x p) of
        None \<Rightarrow> None
      | Some x \<Rightarrow>
          (case snapAxisDouble g (vec_y p) of
             None \<Rightarrow> None
           | Some y \<Rightarrow>
               (case snapAxisDouble g (vec_z p) of
                  None \<Rightarrow> None
                | Some z \<Rightarrow> Some (Vector3 x y z))))"

text \<open>
  The coordinate \<open>v\<close> is snapped without rounding in the product: the quotient is a
  finite double \<open>q\<close>, the cell index \<open>round q\<close> is below \<open>2\<^sup>5\<^sup>3\<close> in magnitude, and the
  index times the grid size is a double.
\<close>

definition exactSnap :: "real \<Rightarrow> real \<Rightarrow> bool" where
  "exactSnap g v =
     (case toDouble (v / g) of
        None \<Rightarrow> False
      | Some q \<Rightarrow> \<bar>round q\<bar> < 2 ^ 53
                   \<and> toDouble (of_int (round q) * g) = Some (of_int (round q) * g))"

subsection \<open>Build modes, materials, meshes and bodies\<close>

text \<open>
  The build modes \<^verbatim>\<open>'wall'\<close>, \<^verbatim>\<open>'floor'\<close>, \<^verbatim>\<open>'ramp'\<close>, \<^verbatim>\<open>'roof'\<close> of
  \<^verbatim>\<open>this.buildModes\<close> and the materials \<^verbatim>\<open>'wood'\<close>, \<^verbatim>\<open>'stone'\<close>, \<^verbatim>\<open>'metal'\<close>. The
  source keeps them as strings; \<^verbatim>\<open>switchBuildMode\<close> refuses every string outside
  \<^verbatim>\<open>this.buildModes\<close>, so \<^verbatim>\<open>this.currentBuildMode\<close> is always one of the four.
\<close>

datatype buildMode = Wall | Floor | Ramp | Roof

datatype material = Wood | Stone | Metal

text \<open>An entry of \<^verbatim>\<open>this.materialProps\<close>: \<^verbatim>\<open>{ hp, buildTime }\<close>.\<close>

datatype props = Props (props_hp: real) (props_buildTime: real)

text \<open>
  The geometries the constructor builds: \<^verbatim>\<open>BoxGeometry(width, height, depth)\<close>, the ramp
  of \<^verbatim>\<open>createRampGeometry\<close>, \<^verbatim>\<open>ConeGeometry(radius, height, radialSegments)\<close>.
\<close>

datatype geometry = BoxGeometry real real real | RampGeometry | ConeGeometry real real nat

text \<open>
  A \<^verbatim>\<open>THREE.Mesh\<close>: the fields the building system reads or writes. \<open>color\<close> is the
  colour of its material, \<open>userData\<close> the \<^verbatim>\<open>buildType\<close> and \<^verbatim>\<open>id\<close> that
  \<^verbatim>\<open>createStructure\<close> stores (absent on a ghost). Roughness, metalness and the shadow
  flags only reach the renderer and are left out.
\<close>

record threeMesh =
  position :: vector3
  rotation :: euler
  scale :: vector3
  visible :: bool
  geometry :: geometry
  color :: nat
  userData :: "(buildMode \<times> string) option"

text \<open>
  A \<^verbatim>\<open>CANNON.Body\<close>: the half extents of its box shape, its mass, its position and its
  orientation (copied from the mesh; kept as the Euler angles it was made from).
\<close>

record cannonBody =
  shape :: vector3
  mass :: real
  bodyPosition :: vector3
  quaternion :: euler

text \<open>
  The structure object of \<^verbatim>\<open>createStructure\<close>, lines 936 to 947. \<open>sid\<close> is its
  \<^verbatim>\<open>id\<close>, \<open>buildType\<close> its \<^verbatim>\<open>type\<close>, \<open>structMaterial\<close> its \<^verbatim>\<open>material\<close>.
\<close>

record structureObj =
  sid :: string
  mesh :: threeMesh
  body :: cannonBody
  buildType :: buildMode
  structMaterial :: material
  hp :: real
  maxHp :: real
  buildTime :: real
  builtAt :: real
  isBuilding :: bool

subsection \<open>Collaborators\<close>

text \<open>
  The scene, the physics world and the network are collaborators: the model records the
  calls made to them, in order. A mesh is named by the object that holds it: a ghost by
  its build mode, a structure's mesh by the reference of the structure.
\<close>

datatype meshRef = GhostMesh buildMode | StructureMesh nat

text \<open>The object given to \<^verbatim>\<open>network.send\<close>: \<^verbatim>\<open>{ type, buildType, position, rotation }\<close>.\<close>

datatype netEvent =
  NetEvent (ev_type: string) (ev_buildType: buildMode) (ev_position: vector3) (ev_rotation: euler)

datatype call =
    SceneAdd meshRef
  | SceneRemove meshRef
  | PhysicsAddBody string cannonBody
  | PhysicsRemoveBody string
  | NetworkSend netEvent

text \<open>
  An axis-aligned box (\<^verbatim>\<open>THREE.Box3\<close>). \<^verbatim>\<open>Box3.setFromObject\<close> and
  \<^verbatim>\<open>Box3.intersectsBox\<close> belong to three.js, not to this repository: the functions that
  use them take them as the parameters \<open>setFromObject\<close> and \<open>intersectsBox\<close>.
\<close>

datatype box3 = Box3 (box_min: vector3) (box_max: vector3)

text \<open>The outcome of a method: it returned a value, or it threw a \<^verbatim>\<open>TypeError\<close>.\<close>

datatype 'a outcome = Returned 'a | Threw

subsection \<open>The state\<close>

text \<open>
  The fields of a \<^verbatim>\<open>BuildingSystem\<close> (\<open>isBuildingMode\<close> is \<^verbatim>\<open>this.isBuilding\<close>), and
  what it reaches: \<open>resources\<close> is \<^verbatim>\<open>this.player.resources\<close>, \<open>calls\<close> the calls made
  to the collaborators so far.

  Structure objects are shared: \<^verbatim>\<open>this.structures\<close>, the timer of \<^verbatim>\<open>animateBuild\<close> and
  the caller of \<^verbatim>\<open>createStructure\<close> hold the same object. So the objects live in
  \<open>heap\<close>, a reference is an index into it, a new object is appended, and
  \<open>structures\<close> is a list of references. \<open>ghostPiece\<close> is \<^verbatim>\<open>null\<close> or one of the four
  meshes of \<^verbatim>\<open>this.ghostMeshes\<close>, named by its mode. \<open>intervals\<close> lists the timers of
  \<^verbatim>\<open>setInterval\<close> that have not been cleared, each by the structure it animates.
\<close>

record buildingSystem =
  currentBuildMode :: buildMode
  currentMaterial :: material
  isBuildingMode :: bool
  ghostPiece :: "buildMode option"
  placementValid :: bool
  gridSize :: real
  costs :: "buildMode \<Rightarrow> real"
  materialProps :: "material \<Rightarrow> props"
  structures :: "nat list"
  ghostMeshes :: "buildMode \<Rightarrow> threeMesh"
  heap :: "structureObj list"
  intervals :: "nat list"
  resources :: "material \<Rightarrow> real"
  calls :: "call list"

definition deref :: "buildingSystem \<Rightarrow> nat \<Rightarrow> structureObj option" where
  "deref st a = (if a < length (heap st) then Some (heap st ! a) else None)"

definition call :: "call \<Rightarrow> buildingSystem \<Rightarrow> buildingSystem" where
  "call c st = st\<lparr>calls := calls st @ [c]\<rparr>"

subsection \<open>Construction of the system\<close>

text \<open>
  \<^verbatim>\<open>createGhostMesh(geometry)\<close>, lines 712 to 723: a hidden green mesh (\<^verbatim>\<open>0x00ff00\<close> is
  65280); the call \<^verbatim>\<open>this.scene.add(mesh)\<close> is recorded by the constructor below.
\<close>

definition createGhostMesh :: "geometry \<Rightarrow> threeMesh" where
  "createGhostMesh geo =
     \<lparr>position = Vector3 0 0 0, rotation = Euler 0 0 0, scale = Vector3 1 1 1,
      visible = False, geometry = geo, color = 65280, userData = None\<rparr>"

text \<open>\<^verbatim>\<open>setupGhostPieces()\<close>, lines 691 to 710, for a grid size \<open>g\<close>.\<close>

fun setupGhostPieces :: "real \<Rightarrow> buildMode \<Rightarrow> threeMesh" where
  "setupGhostPieces g Wall = createGhostMesh (BoxGeometry g g 0.2)"
| "setupGhostPieces g Floor = createGhostMesh (BoxGeometry g 0.2 g)"
| "setupGhostPieces g Ramp = createGhostMesh RampGeometry"
| "setupGhostPieces g Roof = createGhostMesh (ConeGeometry (g / 1.4) (g / 2) 4)"

text \<open>
  The constructor, lines 654 to 689, for a player whose resources are \<open>playerResources\<close>
  and a scene, a physics world and a network that have received no call yet.
\<close>

fun initialMaterialProps :: "material \<Rightarrow> props" where
  "initialMaterialProps Wood = Props 150 4"
| "initialMaterialProps Stone = Props 300 7"
| "initialMaterialProps Metal = Props 500 10"

definition constructor :: "(material \<Rightarrow> real) \<Rightarrow> buildingSystem" where
  "constructor playerResources =
     \<lparr>currentBuildMode = Wall, currentMaterial = Wood, isBuildingMode = False,
      ghostPiece = None, placementValid = False, gridSize = 2,
      costs = (\<lambda>mode. 10), materialProps = initialMaterialProps,
      structures = [], ghostMeshes = setupGhostPieces 2,
      heap = [], intervals = [], resources = playerResources,
      calls = [SceneAdd (GhostMesh Wall), SceneAdd (GhostMesh Floor),
               SceneAdd (GhostMesh Ramp), SceneAdd (GhostMesh Roof)]\<rparr>"

subsection \<open>Build mode\<close>

definition setVisible :: "buildMode \<Rightarrow> bool \<Rightarrow> buildingSystem \<Rightarrow> buildingSystem" where
  "setVisible g v st = st\<lparr>ghostMeshes := (ghostMeshes st)(g := (ghostMeshes st g)\<lparr>visible := v\<rparr>)\<rparr>"

text \<open>\<^verbatim>\<open>enterBuildMode()\<close>, lines 748 to 752.\<close>

definition enterBuildMode :: "buildingSystem \<Rightarrow> buildingSystem" where
  "enterBuildMode st =
     setVisible (currentBuildMode st) True
       (st\<lparr>isBuildingMode := True, ghostPiece := Some (currentBuildMode st)\<rparr>)"

text \<open>\<^verbatim>\<open>exitBuildMode()\<close>, lines 754 to 759.\<close>

definition exitBuildMode :: "buildingSystem \<Rightarrow> buildingSystem" where
  "exitBuildMode st =
     (let st1 = st\<lparr>isBuildingMode := False\<rparr>
      in case ghostPiece st1 of None \<Rightarrow> st1 | Some g \<Rightarrow> setVisible g False st1)"

text \<open>
  \<^verbatim>\<open>switchBuildMode(mode)\<close>, lines 761 to 774. The first line returns when \<^verbatim>\<open>mode\<close> is
  not in \<^verbatim>\<open>this.buildModes\<close>; every value of \<^typ>\<open>buildMode\<close> is.
\<close>

definition switchBuildMode :: "buildMode \<Rightarrow> buildingSystem \<Rightarrow> buildingSystem" where
  "switchBuildMode mode st =
     (let st1 = (case ghostPiece st of None \<Rightarrow> st | Some g \<Rightarrow> setVisible g False st);
          st2 = st1\<lparr>currentBuildMode := mode, ghostPiece := Some mode\<rparr>
      in if isBuildingMode st2 then setVisible mode True st2 else st2)"

subsection \<open>Preview and validation\<close>

text \<open>
  \<^verbatim>\<open>calculatePlacement(camera)\<close>, lines 796 to 823. The ray cast is three.js's: its
  result is the argument \<open>hit\<close>, \<open>None\<close> when nothing is hit and otherwise the point
  and the face normal of the nearest intersection. The result is the snapped position and
  the rotation (\<^verbatim>\<open>attachedTo\<close> is never read).
\<close>

definition calculatePlacement ::
  "buildingSystem \<Rightarrow> (vector3 \<times> vector3) option \<Rightarrow> (vector3 \<times> euler) option" where
  "calculatePlacement st hit =
     (case hit of
        None \<Rightarrow> None
      | Some (point, normal) \<Rightarrow>
          Some (snapToGrid (gridSize st) point, calculateRotationFromNormal normal))"

text \<open>
  The loop of \<^verbatim>\<open>checkPlacementValid\<close>, lines 860 to 865, over the references of
  \<^verbatim>\<open>this.structures\<close>: \<open>False\<close> as soon as the box of a structure's mesh intersects
  \<open>bbox\<close>, \<open>True\<close> when the loop ends. (A reference outside the heap cannot occur in
  the source; the loop passes over it.)
\<close>

fun noOverlap ::
  "(threeMesh \<Rightarrow> box3) \<Rightarrow> (box3 \<Rightarrow> box3 \<Rightarrow> bool) \<Rightarrow> buildingSystem \<Rightarrow> box3 \<Rightarrow> nat list \<Rightarrow> bool" where
  "noOverlap setFromObject intersectsBox st bbox [] = True"
| "noOverlap setFromObject intersectsBox st bbox (a # as) =
     (case deref st a of
        None \<Rightarrow> noOverlap setFromObject intersectsBox st bbox as
      | Some s \<Rightarrow>
          if intersectsBox bbox (setFromObject (mesh s)) then False
          else noOverlap setFromObject intersectsBox st bbox as)"

text \<open>
  \<^verbatim>\<open>checkPlacementValid(placement)\<close>, lines 850 to 868. The argument \<^verbatim>\<open>placement\<close> is
  never read: the box is the one of \<^verbatim>\<open>this.ghostPiece\<close>. With \<^verbatim>\<open>this.ghostPiece\<close>
  \<^verbatim>\<open>null\<close>, \<^verbatim>\<open>setFromObject\<close> throws.
\<close>

definition checkPlacementValid ::
  "(threeMesh \<Rightarrow> box3) \<Rightarrow> (box3 \<Rightarrow> box3 \<Rightarrow> bool) \<Rightarrow> buildingSystem \<Rightarrow> bool outcome" where
  "checkPlacementValid setFromObject intersectsBox st =
     (let cost = costs st (currentBuildMode st)
      in if resources st (currentMaterial st) < cost then Returned False
         else case ghostPiece st of
                None \<Rightarrow> Threw
              | Some g \<Rightarrow>
                  Returned (noOverlap setFromObject intersectsBox st
                              (setFromObject (ghostMeshes st g)) (structures st)))"

text \<open>
  Lines 783 and 784 of \<^verbatim>\<open>update\<close>: the ghost takes the position and the rotation of the
  placement.
\<close>

definition moveGhost :: "buildMode \<Rightarrow> vector3 \<Rightarrow> euler \<Rightarrow> buildingSystem \<Rightarrow> buildingSystem" where
  "moveGhost g pos rot st =
     st\<lparr>ghostMeshes := (ghostMeshes st)(g := (ghostMeshes st g)\<lparr>position := pos, rotation := rot\<rparr>)\<rparr>"

text \<open>
  \<^verbatim>\<open>update(camera)\<close>, lines 776 to 794. The ghost is moved to the placement, the
  validity is stored in \<^verbatim>\<open>this.placementValid\<close> and shown as the ghost's colour
  (\<^verbatim>\<open>0x00ff00\<close> is 65280, \<^verbatim>\<open>0xff0000\<close> is 16711680). Were the check to throw, the
  exception would leave \<^verbatim>\<open>update\<close> with the ghost moved and nothing stored. Without
  a placement (nothing hit) nothing is stored either: \<^verbatim>\<open>this.placementValid\<close> keeps
  its value.
\<close>

definition update ::
  "(threeMesh \<Rightarrow> box3) \<Rightarrow> (box3 \<Rightarrow> box3 \<Rightarrow> bool) \<Rightarrow> (vector3 \<times> vector3) option
     \<Rightarrow> buildingSystem \<Rightarrow> buildingSystem" where
  "update setFromObject intersectsBox hit st =
     (if \<not> isBuildingMode st then st
      else case ghostPiece st of
        None \<Rightarrow> st
      | Some g \<Rightarrow>
          (case calculatePlacement st hit of
             None \<Rightarrow> st
           | Some (pos, rot) \<Rightarrow>
               let st1 = moveGhost g pos rot st
               in case checkPlacementValid setFromObject intersectsBox st1 of
                    Threw \<Rightarrow> st1
                  | Returned v \<Rightarrow>
                      st1\<lparr>placementValid := v,
                          ghostMeshes := (ghostMeshes st1)
                            (g := (ghostMeshes st1 g)\<lparr>color := (if v then 65280 else 16711680)\<rparr>)\<rparr>))"

subsection \<open>Creating a structure and building it up\<close>

text \<open>\<^verbatim>\<open>createPhysicsShape(type)\<close>, lines 955 to 969: the half extents of the box.\<close>

fun createPhysicsShape :: "buildMode \<Rightarrow> vector3" where
  "createPhysicsShape Wall = Vector3 1 1 0.1"
| "createPhysicsShape Floor = Vector3 1 0.1 1"
| "createPhysicsShape Ramp = Vector3 1 1 1"
| "createPhysicsShape Roof = Vector3 1 0.5 1"

text \<open>
  \<^verbatim>\<open>getMaterialColor(material)\<close>, lines 993 to 1000: \<^verbatim>\<open>0x8B4513\<close>, \<^verbatim>\<open>0x808080\<close>,
  \<^verbatim>\<open>0x5C5C5C\<close>.
\<close>

fun getMaterialColor :: "material \<Rightarrow> nat" where
  "getMaterialColor Wood = 9127187"
| "getMaterialColor Stone = 8421504"
| "getMaterialColor Metal = 6052956"

text \<open>
  \<^verbatim>\<open>animateBuild(structure)\<close>, lines 971 to 991, starts a timer with
  \<^verbatim>\<open>setInterval(..., 100)\<close> and returns; nothing else happens until the timer fires.
\<close>

definition animateBuild :: "nat \<Rightarrow> buildingSystem \<Rightarrow> buildingSystem" where
  "animateBuild a st = st\<lparr>intervals := intervals st @ [a]\<rparr>"

text \<open>
  The function the timer calls, lines 972 to 990, at the time \<open>now\<close> that
  \<^verbatim>\<open>performance.now()\<close> returns (milliseconds). \<^verbatim>\<open>clearInterval\<close> removes the timer.
\<close>

definition animateBuildTick :: "nat \<Rightarrow> real \<Rightarrow> buildingSystem \<Rightarrow> buildingSystem" where
  "animateBuildTick a now st =
     (case deref st a of
        None \<Rightarrow> st
      | Some s \<Rightarrow>
          if \<not> isBuilding s then st\<lparr>intervals := removeAll a (intervals st)\<rparr>
          else
            let elapsed = (now - builtAt s) / 1000;
                progress = min (elapsed / buildTime s) 1;
                s1 = s\<lparr>hp := maxHp s * progress\<rparr>;
                v = 0.5 + 0.5 * progress;
                s2 = s1\<lparr>mesh := (mesh s1)\<lparr>scale := Vector3 v v v\<rparr>\<rparr>
            in if progress \<ge> 1
               then st\<lparr>heap := (heap st)[a := s2\<lparr>isBuilding := False\<rparr>],
                       intervals := removeAll a (intervals st)\<rparr>
               else st\<lparr>heap := (heap st)[a := s2]\<rparr>)"

text \<open>
  The host's timer: it calls the function of a timer only while the timer has not been
  cleared.
\<close>

definition intervalFires :: "nat \<Rightarrow> real \<Rightarrow> buildingSystem \<Rightarrow> buildingSystem" where
  "intervalFires a now st = (if a \<in> set (intervals st) then animateBuildTick a now st else st)"

text \<open>
  \<^verbatim>\<open>createStructure(type, position, rotation)\<close>, lines 902 to 953. \<open>newId\<close> is the
  string made from \<^verbatim>\<open>Date.now()\<close> and \<^verbatim>\<open>Math.random()\<close>, \<open>now\<close> what
  \<^verbatim>\<open>performance.now()\<close> returns. First the object that lines 903 to 947 build: the
  mesh, the body and the structure's properties.
\<close>

definition newStructure ::
  "string \<Rightarrow> real \<Rightarrow> buildMode \<Rightarrow> vector3 \<Rightarrow> euler \<Rightarrow> buildingSystem \<Rightarrow> structureObj" where
  "newStructure newId now type pos rot st =
     (let m = \<lparr>position = pos, rotation = rot, scale = Vector3 1 1 1, visible = True,
               geometry = geometry (ghostMeshes st type),
               color = getMaterialColor (currentMaterial st),
               userData = Some (type, newId)\<rparr>;
          b = \<lparr>shape = createPhysicsShape type, mass = 0, bodyPosition = pos,
               quaternion = rotation m\<rparr>;
          props = materialProps st (currentMaterial st)
      in \<lparr>sid = newId, mesh = m, body = b, buildType = type,
          structMaterial = currentMaterial st,
          hp = props_hp props, maxHp = props_hp props,
          buildTime = props_buildTime props,
          builtAt = now, isBuilding = True\<rparr>)"

text \<open>
  The function: the object is allocated, \<^verbatim>\<open>animateBuild\<close> starts its timer, and the
  object is returned. The result is the reference of the new object and the new state.
\<close>

definition createStructure ::
  "string \<Rightarrow> real \<Rightarrow> buildMode \<Rightarrow> vector3 \<Rightarrow> euler \<Rightarrow> buildingSystem \<Rightarrow> nat \<times> buildingSystem" where
  "createStructure newId now type pos rot st =
     (let s = newStructure newId now type pos rot st;
          a = length (heap st)
      in (a, animateBuild a (st\<lparr>heap := heap st @ [s]\<rparr>)))"

subsection \<open>Placing, damaging and destroying\<close>

text \<open>
  \<^verbatim>\<open>placeBuild()\<close>, lines 870 to 900. With \<^verbatim>\<open>this.ghostPiece\<close> \<^verbatim>\<open>null\<close> the read of
  \<^verbatim>\<open>this.ghostPiece.position\<close> throws, after the resources have been deducted.
  \<^verbatim>\<open>playBuildSound()\<close> has an empty body. The fields of the new structure are read
  through its reference, which \<^verbatim>\<open>createStructure\<close> has just allocated: the read cannot
  fail, and the model's other branch is never taken (lemma \<open>placeBuild_valid\<close>).
\<close>

definition placeBuild :: "string \<Rightarrow> real \<Rightarrow> buildingSystem \<Rightarrow> bool outcome \<times> buildingSystem" where
  "placeBuild newId now st =
     (if \<not> placementValid st then (Returned False, st)
      else
        let cost = costs st (currentBuildMode st);
            st1 = st\<lparr>resources := (resources st)
                     (currentMaterial st := resources st (currentMaterial st) - cost)\<rparr>
        in case ghostPiece st1 of
             None \<Rightarrow> (Threw, st1)
           | Some g \<Rightarrow>
               let (a, st2) = createStructure newId now (currentBuildMode st1)
                                (position (ghostMeshes st1 g)) (rotation (ghostMeshes st1 g)) st1;
                   st3 = st2\<lparr>structures := structures st2 @ [a]\<rparr>
               in case deref st3 a of
                    None \<Rightarrow> (Threw, st3)
                  | Some s \<Rightarrow>
                      let st4 = call (SceneAdd (StructureMesh a)) st3;
                          st5 = call (PhysicsAddBody (sid s) (body s)) st4;
                          st6 = call (NetworkSend (NetEvent ''build'' (currentBuildMode st5)
                                        (position (mesh s)) (rotation (mesh s)))) st5
                      in (Returned True, st6))"

text \<open>
  \<^verbatim>\<open>destroyStructure(structure)\<close>, lines 1016 to 1032. \<^verbatim>\<open>indexOf\<close> and \<^verbatim>\<open>splice\<close>
  remove the first occurrence of the object, if there is one.
  \<^verbatim>\<open>spawnDestructionEffect\<close> and \<^verbatim>\<open>playDestroySound\<close> have empty bodies.
\<close>

definition destroyStructure :: "nat \<Rightarrow> structureObj \<Rightarrow> buildingSystem \<Rightarrow> buildingSystem" where
  "destroyStructure a s st =
     (let st1 = call (SceneRemove (StructureMesh a)) st;
          st2 = call (PhysicsRemoveBody (sid s)) st1
      in st2\<lparr>structures := remove1 a (structures st2)\<rparr>)"

text \<open>\<^verbatim>\<open>this.structures.find(s => s.id === structureId)\<close>, line 1003.\<close>

definition findStructure :: "buildingSystem \<Rightarrow> string \<Rightarrow> nat option" where
  "findStructure st structureId =
     find (\<lambda>a. case deref st a of None \<Rightarrow> False | Some s \<Rightarrow> sid s = structureId) (structures st)"

text \<open>The registry's identifiers, in order (\<open>None\<close> for a reference outside the heap).\<close>

definition registryIds :: "buildingSystem \<Rightarrow> string option list" where
  "registryIds st = map (\<lambda>a. map_option sid (deref st a)) (structures st)"

text \<open>
  \<^verbatim>\<open>damageStructure(structureId, damage)\<close>, lines 1002 to 1014.
  \<^verbatim>\<open>showDamageEffect\<close> has an empty body.
\<close>

definition damageStructure :: "string \<Rightarrow> real \<Rightarrow> buildingSystem \<Rightarrow> buildingSystem" where
  "damageStructure structureId damage st =
     (case findStructure st structureId of
        None \<Rightarrow> st
      | Some a \<Rightarrow>
          (case deref st a of
             None \<Rightarrow> st
           | Some s \<Rightarrow>
               let s1 = s\<lparr>hp := hp s - damage\<rparr>;
                   st1 = st\<lparr>heap := (heap st)[a := s1]\<rparr>
               in if hp s1 \<le> 0 then destroyStructure a s1 st1 else st1))"

subsection \<open>three.js boxes, for concrete runs\<close>

text \<open>
  What \<^verbatim>\<open>Box3.intersectsBox\<close> and \<^verbatim>\<open>Box3.setFromObject\<close> of three.js compute, written
  out so that the functions above can be run on concrete states: two boxes intersect
  unless they are apart along some axis (touching boxes intersect), and the box of a mesh
  is the box of its geometry, scaled, turned and moved to the mesh's position. Only the two
  rotations that \<open>calculateRotationFromNormal\<close> produces are covered: no rotation, and a
  quarter turn about Y, which sends \<open>(x, y, z)\<close> to \<open>(z, y, - x)\<close>.
\<close>

definition box3_intersectsBox :: "box3 \<Rightarrow> box3 \<Rightarrow> bool" where
  "box3_intersectsBox this box =
     (\<not> (vec_x (box_max box) < vec_x (box_min this) \<or> vec_x (box_min box) > vec_x (box_max this)
        \<or> vec_y (box_max box) < vec_y (box_min this) \<or> vec_y (box_min box) > vec_y (box_max this)
        \<or> vec_z (box_max box) < vec_z (box_min this) \<or> vec_z (box_min box) > vec_z (box_max this)))"

fun geometryBounds :: "geometry \<Rightarrow> box3" where
  "geometryBounds (BoxGeometry w h d) =
     Box3 (Vector3 (- w / 2) (- h / 2) (- d / 2)) (Vector3 (w / 2) (h / 2) (d / 2))"
| "geometryBounds RampGeometry = Box3 (Vector3 (- 1) 0 (- 1)) (Vector3 1 2 1)"
| "geometryBounds (ConeGeometry r h n) =
     Box3 (Vector3 (- r) (- h / 2) (- r)) (Vector3 r (h / 2) r)"

definition box3_setFromObject :: "threeMesh \<Rightarrow> box3" where
  "box3_setFromObject m =
     (let lo = box_min (geometryBounds (geometry m));
          hi = box_max (geometryBounds (geometry m));
          p = position m;
          k = scale m
      in if rotation m = Euler 0 (pi / 2) 0
         then Box3 (Vector3 (vec_x p + vec_x k * vec_z lo) (vec_y p + vec_y k * vec_y lo)
                            (vec_z p - vec_z k * vec_x hi))
                   (Vector3 (vec_x p + vec_x k * vec_z hi) (vec_y p + vec_y k * vec_y hi)
                            (vec_z p - vec_z k * vec_x lo))
         else Box3 (Vector3 (vec_x p + vec_x k * vec_x lo) (vec_y p + vec_y k * vec_y lo)
                            (vec_z p + vec_z k * vec_z lo))
                   (Vector3 (vec_x p + vec_x k * vec_x hi) (vec_y p + vec_y k * vec_y hi)
                            (vec_z p + vec_z k * vec_z hi)))"

subsection \<open>Runs of the build timer\<close>

text \<open>The timer of the structure \<open>a\<close> firing at the times of a list, one after the other.\<close>

fun runTicks :: "nat \<Rightarrow> real list \<Rightarrow> buildingSystem \<Rightarrow> buildingSystem" where
  "runTicks a [] st = st"
| "runTicks a (t # ts) st = runTicks a ts (intervalFires a t st)"

text \<open>
  The value of \<^verbatim>\<open>progress\<close> in the timer's function (lines 978 and 979) for a
  structure object \<open>s\<close> at the time \<open>now\<close>.
\<close>

definition progressAt :: "structureObj \<Rightarrow> real \<Rightarrow> real" where
  "progressAt s now = min ((now - builtAt s) / 1000 / buildTime s) 1"

text \<open>
  The two stages of the structure at the reference \<open>a\<close>, for an object \<open>s0\<close> that
  gives its \<open>maxHp\<close>, \<open>buildTime\<close> and \<open>builtAt\<close>: under construction with its timer
  running, and completed with the timer cleared.
\<close>

definition underConstruction :: "buildingSystem \<Rightarrow> nat \<Rightarrow> structureObj \<Rightarrow> bool" where
  "underConstruction st a s0 =
     (case deref st a of
        None \<Rightarrow> False
      | Some s \<Rightarrow> isBuilding s \<and> maxHp s = maxHp s0 \<and> buildTime s = buildTime s0
                   \<and> builtAt s = builtAt s0 \<and> a \<in> set (intervals st))"

definition completed :: "buildingSystem \<Rightarrow> nat \<Rightarrow> structureObj \<Rightarrow> bool" where
  "completed st a s0 =
     (case deref st a of
        None \<Rightarrow> False
      | Some s \<Rightarrow> \<not> isBuilding s \<and> hp s = maxHp s0 \<and> a \<notin> set (intervals st))"

subsection \<open>Example states\<close>

text \<open>
  A new system for a player with 100 of every material, in which a wooden wall has been
  created at the time 0.
\<close>

definition woodStart :: buildingSystem where
  "woodStart = snd (createStructure ''structure_1'' 0 Wall (Vector3 0 0 0) (Euler 0 0 0)
                      (constructor (\<lambda>m. 100)))"

text \<open>
  The same player in build mode, aiming at the ground near the origin: the preview of
  a wall at \<open>(0, 0, 0)\<close>; then the wall placed at the time 0; then the wall built up by
  its timer.
\<close>

definition groundHit :: "(vector3 \<times> vector3) option" where
  "groundHit = Some (Vector3 0.3 0.2 (- 0.4), Vector3 0 1 0)"

definition previewWall :: buildingSystem where
  "previewWall = update box3_setFromObject box3_intersectsBox groundHit
                   (enterBuildMode (constructor (\<lambda>m. 100)))"

definition wallPlaced :: buildingSystem where
  "wallPlaced = snd (placeBuild ''structure_1'' 0 previewWall)"

definition wallBuilt :: buildingSystem where
  "wallBuilt = runTicks 0 [100, 4000] wallPlaced"

text \<open>A player with 5 of every material in build mode, after the same preview.\<close>

definition poorPreview :: buildingSystem where
  "poorPreview = update box3_setFromObject box3_intersectsBox groundHit
                   (enterBuildMode (constructor (\<lambda>m. 5)))"

text \<open>
  A player with 15 of every material previews the wall and commits it at the time 0: the
  resources are down to 5, and the stored validity is still the one of that preview.
\<close>

definition previewWith15 :: buildingSystem where
  "previewWith15 = update box3_setFromObject box3_intersectsBox groundHit
                     (enterBuildMode (constructor (\<lambda>m. 15)))"

definition committedWith15 :: buildingSystem where
  "committedWith15 = snd (placeBuild ''structure_1'' 0 previewWith15)"

text \<open>
  The preview of the wall, after which the player's resources have dropped to 5 of every
  material (spent elsewhere) before the commit.
\<close>

definition spentAfterPreview :: buildingSystem where
  "spentAfterPreview = previewWall\<lparr>resources := (\<lambda>m. 5)\<rparr>"


section \<open>Properties\<close>

subsection \<open>Grid snapping\<close>

lemma snapAxis_multiple: "g \<noteq> 0 \<Longrightarrow> snapAxis g (of_int k * g) = of_int k * g"
  by (simp add: snapAxis_def)

lemma snapAxis_idem: "g \<noteq> 0 \<Longrightarrow> snapAxis g (snapAxis g v) = snapAxis g v"
  unfolding snapAxis_def [of g v] by (rule snapAxis_multiple)

lemma snapAxis_nearest:
  assumes "0 < g"
  shows "\<bar>snapAxis g v - v\<bar> \<le> \<bar>of_int k * g - v\<bar>"
proof -
  have "\<bar>v / g - of_int (round (v / g))\<bar> \<le> \<bar>v / g - of_int k\<bar>"
    by (rule round_diff_minimal)
  then have "\<bar>v / g - of_int (round (v / g))\<bar> * g
      \<le> \<bar>v / g - of_int k\<bar> * g"
    using assms by (simp add: mult_right_mono)
  moreover have "\<bar>v / g - of_int (round (v / g))\<bar> * g
      = \<bar>snapAxis g v - v\<bar>"
  proof -
    have "\<bar>v / g - of_int (round (v / g))\<bar> * g
        = \<bar>(v / g - of_int (round (v / g))) * g\<bar>"
      using assms by (simp add: abs_mult)
    also have "(v / g - of_int (round (v / g))) * g
        = v - snapAxis g v"
      using assms by (simp add: snapAxis_def algebra_simps)
    finally show ?thesis by (simp add: abs_minus_commute)
  qed
  moreover have "\<bar>v / g - of_int k\<bar> * g = \<bar>of_int k * g - v\<bar>"
  proof -
    have "\<bar>v / g - of_int k\<bar> * g = \<bar>(v / g - of_int k) * g\<bar>"
      using assms by (simp add: abs_mult)
    also have "(v / g - of_int k) * g = v - of_int k * g"
      using assms by (simp add: algebra_simps)
    finally show ?thesis by (simp add: abs_minus_commute)
  qed
  ultimately show ?thesis by simp
qed

text \<open>
  In exact arithmetic, for every grid size above zero and every position, \<open>snapToGrid\<close>
  is idempotent, and it rounds each axis on its own to the nearest multiple of the grid
  size.
\<close>

lemma snapToGrid_exact_arithmetic:
  assumes "0 < g"
  shows "snapToGrid g (snapToGrid g p) = snapToGrid g p
    \<and> (\<forall>a. component a (snapToGrid g p) = snapAxis g (component a p))
    \<and> (\<forall>a. \<exists>n::int. component a (snapToGrid g p) = of_int n * g)
    \<and> (\<forall>a. \<forall>k::int. \<bar>component a (snapToGrid g p) - component a p\<bar>
           \<le> \<bar>of_int k * g - component a p\<bar>)"
proof -
  from assms have nz: "g \<noteq> 0" by simp
  have idem: "snapToGrid g (snapToGrid g p) = snapToGrid g p"
    by (simp add: snapToGrid_def snapAxis_idem [OF nz])
  have ax: "component a (snapToGrid g p) = snapAxis g (component a p)" for a
    by (cases a) (simp_all add: snapToGrid_def)
  have mult: "\<exists>n::int. component a (snapToGrid g p) = of_int n * g" for a
    unfolding ax snapAxis_def by blast
  have near: "\<bar>component a (snapToGrid g p) - component a p\<bar>
           \<le> \<bar>of_int k * g - component a p\<bar>" for a and k :: int
    unfolding ax by (rule snapAxis_nearest [OF assms])
  from idem ax mult near show ?thesis by blast
qed

subsection \<open>Grid snapping in double precision\<close>

lemma roundTiesToEven_of_int: "roundTiesToEven (of_int k) = k"
  by (simp add: roundTiesToEven_def)

lemma ulp_eval:
  assumes "2 powr of_int e \<le> \<bar>x\<bar>" and "\<bar>x\<bar> < 2 powr of_int (e + 1)" and "- 1022 \<le> e"
  shows "ulp x = 2 powr of_int (e - 52)"
proof -
  have pos: "0 < \<bar>x\<bar>" using assms(1) by (smt (verit) powr_gt_zero)
  then have "\<lfloor>log 2 \<bar>x\<bar>\<rfloor> = e"
    using assms(1,2) by (simp add: floor_log_eq_powr_iff)
  with pos assms(3) show ?thesis by (simp add: ulp_def binade_def)
qed

lemma binade_upper:
  assumes "x \<noteq> 0" and "\<bar>x\<bar> < 2 powr of_int j" and "- 1021 \<le> j"
  shows "binade x < j"
proof -
  from assms(1) have pos: "0 < \<bar>x\<bar>" by simp
  have "log 2 \<bar>x\<bar> < of_int j"
    using pos assms(2) by (simp add: log_less_iff)
  then have "\<lfloor>log 2 \<bar>x\<bar>\<rfloor> < j" by linarith
  with assms(1,3) show ?thesis by (simp add: binade_def)
qed

lemma two_powr_int_nonneg: "0 \<le> d \<Longrightarrow> (2::real) powr of_int d = 2 ^ nat d"
  by (simp add: powr_real_of_int)

lemma toDouble_representable:
  assumes m: "\<bar>m\<bar> < 2 ^ 53" and k: "- 1074 \<le> k" "k \<le> 971"
  shows "toDouble (of_int m * 2 powr of_int k) = Some (of_int m * 2 powr of_int k)"
proof -
  define x :: real where "x = of_int m * 2 powr of_int k"
  define j where "j = binade x - 52"
  have am: "\<bar>of_int m :: real\<bar> < 2 ^ 53"
    using m by (metis of_int_abs of_int_less_numeral_power_cancel_iff)
  have jk: "j \<le> k"
  proof (cases "m = 0")
    case True
    with k show ?thesis by (simp add: j_def x_def binade_def)
  next
    case False
    then have nz: "x \<noteq> 0" by (simp add: x_def)
    have "\<bar>x\<bar> = \<bar>of_int m\<bar> * 2 powr of_int k"
      by (simp add: x_def abs_mult)
    also have "\<dots> < 2 ^ 53 * 2 powr of_int k"
      using am by (intro mult_strict_right_mono) simp_all
    also have "\<dots> = 2 powr of_int (k + 53)"
      by (simp add: powr_add mult.commute)
    finally have "\<bar>x\<bar> < 2 powr of_int (k + 53)" .
    then have "binade x < k + 53"
      using k by (intro binade_upper [OF nz]) simp_all
    then show ?thesis by (simp add: j_def)
  qed
  have u: "ulp x = 2 powr of_int j"
    by (simp add: ulp_def j_def)
  have ratio: "(2::real) powr of_int k / 2 powr of_int j = 2 ^ nat (k - j)"
  proof -
    have "(2::real) powr of_int k / 2 powr of_int j = 2 powr (of_int k - of_int j)"
      by (simp add: powr_diff)
    also have "\<dots> = 2 powr of_int (k - j)" by simp
    also have "\<dots> = 2 ^ nat (k - j)"
      using jk by (intro two_powr_int_nonneg) simp
    finally show ?thesis .
  qed
  have q: "x / ulp x = of_int (m * 2 ^ nat (k - j))"
  proof -
    have "x / ulp x = of_int m * (2 powr of_int k / 2 powr of_int j)"
      unfolding u by (simp add: x_def)
    then show ?thesis by (simp add: ratio)
  qed
  have upos: "ulp x \<noteq> 0" by (simp add: u)
  have recover: "of_int (m * 2 ^ nat (k - j)) * ulp x = x"
    using q upos by (metis nonzero_divide_eq_eq)
  have bound: "\<bar>x\<bar> < 2 ^ 1024"
  proof -
    have "(2::real) powr of_int k \<le> 2 powr of_int 971"
      using k by (subst powr_le_cancel_iff) simp_all
    then have le: "(2::real) powr of_int k \<le> 2 ^ 971" by simp
    have "\<bar>x\<bar> = \<bar>of_int m\<bar> * 2 powr of_int k"
      by (simp add: x_def abs_mult)
    also have "\<dots> < 2 ^ 53 * 2 ^ 971"
      using am le by (intro mult_less_le_imp_less) simp_all
    finally show ?thesis by simp
  qed
  have "toDouble x = Some x"
    unfolding toDouble_def Let_def q roundTiesToEven_of_int recover
    using bound by simp
  then show ?thesis by (simp only: x_def)
qed

lemma toDouble_of_int:
  assumes "\<bar>n\<bar> < 2 ^ 53"
  shows "toDouble (of_int n) = Some (of_int n)"
  using toDouble_representable [OF assms, of 0] by simp

lemma toDouble_at:
  assumes "2 powr of_int e \<le> \<bar>x\<bar>" and "\<bar>x\<bar> < 2 powr of_int (e + 1)" and "- 1022 \<le> e"
  shows "toDouble x =
           (let r = of_int (roundTiesToEven (x / 2 powr of_int (e - 52))) * 2 powr of_int (e - 52)
            in if \<bar>r\<bar> \<ge> 2 ^ 1024 then None else Some r)"
  unfolding toDouble_def Let_def ulp_eval [OF assms] by (rule refl)

text \<open>The model at a familiar value: the double nearest to one tenth.\<close>

lemma toDouble_one_tenth: "toDouble 0.1 = Some (3602879701896397 / 2 ^ 55)"
proof -
  have "toDouble 0.1 =
      (let r = of_int (roundTiesToEven (0.1 / 2 powr of_int (- 4 - 52))) * 2 powr of_int (- 4 - 52)
       in if \<bar>r\<bar> \<ge> 2 ^ 1024 then None else Some r)"
    by (rule toDouble_at) (simp_all add: powr_neg_numeral)
  then show ?thesis
    by (simp add: powr_neg_numeral roundTiesToEven_def Let_def)
qed

lemma snapAxisDouble_first: "snapAxisDouble 3 9427058696746826 = Some 9427058696746828"
proof -
  have q: "toDouble (9427058696746826 / 3) = Some (6284705797831217 / 2)"
  proof -
    have "toDouble (9427058696746826 / 3) =
        (let r = of_int (roundTiesToEven (9427058696746826 / 3 / 2 powr of_int (51 - 52))) * 2 powr of_int (51 - 52)
         in if \<bar>r\<bar> \<ge> 2 ^ 1024 then None else Some r)"
      by (rule toDouble_at) simp_all
    then show ?thesis
      by (simp add: powr_neg_numeral roundTiesToEven_def Let_def)
  qed
  have r: "round (6284705797831217 / 2 :: real) = 3142352898915609"
    by (simp add: round_def)
  have p: "toDouble 9427058696746827 = Some 9427058696746828"
  proof -
    have "toDouble 9427058696746827 =
        (let r = of_int (roundTiesToEven (9427058696746827 / 2 powr of_int (53 - 52))) * 2 powr of_int (53 - 52)
         in if \<bar>r\<bar> \<ge> 2 ^ 1024 then None else Some r)"
      by (rule toDouble_at) simp_all
    then show ?thesis
      by (simp add: roundTiesToEven_def Let_def)
  qed
  show ?thesis
    by (simp add: snapAxisDouble_def q r p)
qed

lemma snapAxisDouble_second: "snapAxisDouble 3 9427058696746828 = Some 9427058696746830"
proof -
  have q: "toDouble (9427058696746828 / 3) = Some (6284705797831219 / 2)"
  proof -
    have "toDouble (9427058696746828 / 3) =
        (let r = of_int (roundTiesToEven (9427058696746828 / 3 / 2 powr of_int (51 - 52))) * 2 powr of_int (51 - 52)
         in if \<bar>r\<bar> \<ge> 2 ^ 1024 then None else Some r)"
      by (rule toDouble_at) simp_all
    then show ?thesis
      by (simp add: powr_neg_numeral roundTiesToEven_def Let_def)
  qed
  have r: "round (6284705797831219 / 2 :: real) = 3142352898915610"
    by (simp add: round_def)
  have p: "toDouble 9427058696746830 = Some 9427058696746830"
  proof -
    have "toDouble 9427058696746830 =
        (let r = of_int (roundTiesToEven (9427058696746830 / 2 powr of_int (53 - 52))) * 2 powr of_int (53 - 52)
         in if \<bar>r\<bar> \<ge> 2 ^ 1024 then None else Some r)"
      by (rule toDouble_at) simp_all
    then show ?thesis
      by (simp add: roundTiesToEven_def Let_def)
  qed
  show ?thesis
    by (simp add: snapAxisDouble_def q r p)
qed

lemma snapAxisDouble_zero: "g \<noteq> 0 \<Longrightarrow> snapAxisDouble g 0 = Some 0"
  using toDouble_of_int [of 0] by (simp add: snapAxisDouble_def)

text \<open>
  Claim C8, as stated, fails in the doubles of the source: with a grid size of 3 the
  coordinate 9427058696746826 (a double, as 3 is) snaps to 9427058696746828, which is not
  a multiple of 3 and is the nearest double to the product 3142352898915609 * 3; snapped
  again it gives 9427058696746830.
\<close>

theorem snapToGrid_double_counterexample:
  "toDouble 3 = Some 3
   \<and> toDouble 9427058696746826 = Some 9427058696746826
   \<and> snapToGridDouble 3 (Vector3 9427058696746826 0 0) = Some (Vector3 9427058696746828 0 0)
   \<and> snapToGridDouble 3 (Vector3 9427058696746828 0 0) = Some (Vector3 9427058696746830 0 0)
   \<and> Vector3 9427058696746830 0 0 \<noteq> Vector3 9427058696746828 0 0
   \<and> \<not> (3::int) dvd 9427058696746828"
proof -
  have t: "toDouble 3 = Some 3"
    using toDouble_of_int [of 3] by simp
  have d: "toDouble 9427058696746826 = Some 9427058696746826"
    using toDouble_representable [of 4713529348373413 1] by simp
  have a: "snapToGridDouble 3 (Vector3 9427058696746826 0 0) = Some (Vector3 9427058696746828 0 0)"
    by (simp add: snapToGridDouble_def snapAxisDouble_first snapAxisDouble_zero)
  have b: "snapToGridDouble 3 (Vector3 9427058696746828 0 0) = Some (Vector3 9427058696746830 0 0)"
    by (simp add: snapToGridDouble_def snapAxisDouble_second snapAxisDouble_zero)
  have c: "Vector3 9427058696746830 0 0 \<noteq> Vector3 9427058696746828 0 0" by simp
  have e: "\<not> (3::int) dvd 9427058696746828" by simp
  from t d a b c e show ?thesis by blast
qed

lemma exactSnap_axis:
  assumes g: "g \<noteq> 0" and e: "exactSnap g v"
  shows "\<exists>n::int. snapAxisDouble g v = Some (of_int n * g)
           \<and> snapAxisDouble g (of_int n * g) = Some (of_int n * g)"
proof -
  from e obtain q where q: "toDouble (v / g) = Some q" and n: "\<bar>round q\<bar> < 2 ^ 53"
    and p: "toDouble (of_int (round q) * g) = Some (of_int (round q) * g)"
    by (auto simp: exactSnap_def split: option.splits)
  have first: "snapAxisDouble g v = Some (of_int (round q) * g)"
    using g q p by (simp add: snapAxisDouble_def)
  have "of_int (round q) * g / g = (of_int (round q) :: real)"
    using g by simp
  moreover have "toDouble (of_int (round q)) = Some (of_int (round q))"
    using n by (rule toDouble_of_int)
  ultimately have "snapAxisDouble g (of_int (round q) * g) = Some (of_int (round q) * g)"
    using g p by (simp add: snapAxisDouble_def)
  with first show ?thesis by blast
qed

lemma exactSnap_integer_grid:
  assumes q: "toDouble (v / of_int k) = Some q"
    and b: "\<bar>of_int (round q) * of_int k :: real\<bar> < 2 ^ 53" and k: "0 < k"
  shows "exactSnap (of_int k) v"
proof -
  have "\<bar>of_int (round q * k) :: real\<bar> < 2 ^ 53" using b by simp
  then have nk: "\<bar>round q * k\<bar> < 2 ^ 53"
    by (metis of_int_abs of_int_less_numeral_power_cancel_iff)
  have "\<bar>round q\<bar> * 1 \<le> \<bar>round q\<bar> * \<bar>k\<bar>"
    using k by (intro mult_left_mono) simp_all
  with nk have n: "\<bar>round q\<bar> < 2 ^ 53" by (simp add: abs_mult)
  have "toDouble (of_int (round q * k)) = Some (of_int (round q * k))"
    using nk by (rule toDouble_of_int)
  then have "toDouble (of_int (round q) * of_int k) = Some (of_int (round q) * of_int k)"
    by simp
  with q n show ?thesis by (simp add: exactSnap_def)
qed

text \<open>
  Claim C8, amended. In the doubles of the source, for every grid size above zero:
  where every coordinate is snapped without rounding in the product (the cell index is
  below \<open>2\<^sup>5\<^sup>3\<close> in magnitude and the index times the grid size is a double),
  \<^verbatim>\<open>snapToGrid\<close> gives on each axis, from that axis alone, an integer multiple of the
  grid size, and it is idempotent there. That holds for every whole grid size, such as
  the 2 of the constructor, as long as the snapped coordinate stays below \<open>2\<^sup>5\<^sup>3\<close> in
  magnitude. Where the division is exact as well, the result is the one of exact
  arithmetic, and no integer multiple of the grid size is nearer to the coordinate.
\<close>

theorem snapToGridDouble_idempotent_when_exact:
  assumes "0 < g"
  shows "((\<forall>a. exactSnap g (component a p)) \<longrightarrow>
            (\<exists>p'. snapToGridDouble g p = Some p' \<and> snapToGridDouble g p' = Some p'
               \<and> (\<forall>a. snapAxisDouble g (component a p) = Some (component a p')
                       \<and> (\<exists>n::int. component a p' = of_int n * g))))
       \<and> (toDouble (v / g) = Some q \<and> g = of_int k \<and> \<bar>of_int (round q) * g\<bar> < 2 ^ 53
            \<longrightarrow> exactSnap g v)
       \<and> (exactSnap g v \<and> toDouble (v / g) = Some (v / g) \<longrightarrow>
            snapAxisDouble g v = Some (snapAxis g v)
            \<and> (\<forall>n::int. \<bar>snapAxis g v - v\<bar> \<le> \<bar>of_int n * g - v\<bar>))"
proof (intro conjI impI)
  from assms have g: "g \<noteq> 0" by simp
  {
    assume e: "\<forall>a. exactSnap g (component a p)"
    from exactSnap_axis [OF g e [rule_format, of AxisX]] obtain nx :: int where
      x: "snapAxisDouble g (vec_x p) = Some (of_int nx * g)"
         "snapAxisDouble g (of_int nx * g) = Some (of_int nx * g)"
      by auto
    from exactSnap_axis [OF g e [rule_format, of AxisY]] obtain ny :: int where
      y: "snapAxisDouble g (vec_y p) = Some (of_int ny * g)"
         "snapAxisDouble g (of_int ny * g) = Some (of_int ny * g)"
      by auto
    from exactSnap_axis [OF g e [rule_format, of AxisZ]] obtain nz :: int where
      z: "snapAxisDouble g (vec_z p) = Some (of_int nz * g)"
         "snapAxisDouble g (of_int nz * g) = Some (of_int nz * g)"
      by auto
    let ?p' = "Vector3 (of_int nx * g) (of_int ny * g) (of_int nz * g)"
    have 1: "snapToGridDouble g p = Some ?p'"
      by (simp add: snapToGridDouble_def x y z)
    have 2: "snapToGridDouble g ?p' = Some ?p'"
      by (simp add: snapToGridDouble_def x y z)
    have 3: "snapAxisDouble g (component a p) = Some (component a ?p')
        \<and> (\<exists>n::int. component a ?p' = of_int n * g)" for a
      by (cases a) (auto simp: x y z)
    from 1 2 3
    show "\<exists>p'. snapToGridDouble g p = Some p' \<and> snapToGridDouble g p' = Some p'
               \<and> (\<forall>a. snapAxisDouble g (component a p) = Some (component a p')
                       \<and> (\<exists>n::int. component a p' = of_int n * g))"
      by blast
  }
  {
    assume h: "toDouble (v / g) = Some q \<and> g = of_int k \<and> \<bar>of_int (round q) * g\<bar> < 2 ^ 53"
    with assms have k: "0 < k" by simp
    from h have ge: "g = of_int k" and a: "toDouble (v / of_int k) = Some q"
      and b: "\<bar>of_int (round q) * of_int k :: real\<bar> < 2 ^ 53"
      by auto
    show "exactSnap g v"
      unfolding ge by (rule exactSnap_integer_grid [OF a b k])
  }
  {
    assume h: "exactSnap g v \<and> toDouble (v / g) = Some (v / g)"
    then have "toDouble (of_int (round (v / g)) * g) = Some (of_int (round (v / g)) * g)"
      by (auto simp: exactSnap_def)
    with h g show "snapAxisDouble g v = Some (snapAxis g v)"
      by (simp add: snapAxisDouble_def snapAxis_def)
    show "\<forall>n::int. \<bar>snapAxis g v - v\<bar> \<le> \<bar>of_int n * g - v\<bar>"
      using snapAxis_nearest [OF assms] by blast
  }
qed

theorem snapToGridDouble_idempotent_when_exact_witness:
  "snapToGridDouble 2 (Vector3 3.25 (- 0.75) 5) = Some (Vector3 4 0 6)
   \<and> snapToGridDouble 2 (Vector3 4 0 6) = Some (Vector3 4 0 6)
   \<and> exactSnap 2 3.25
   \<and> snapAxisDouble 2 3.25 = Some (snapAxis 2 3.25)
   \<and> \<bar>snapAxis 2 3.25 - 3.25\<bar> \<le> \<bar>of_int 1 * 2 - 3.25\<bar>"
proof -
  have pos: "(0::real) < 2" by simp
  have qx: "toDouble (3.25 / 2) = Some (3.25 / 2)"
    using toDouble_representable [of 13 "- 3"] by (simp add: powr_neg_numeral)
  have qy: "toDouble (- 0.75 / 2) = Some (- 0.75 / 2)"
    using toDouble_representable [of "- 3" "- 3"] by (simp add: powr_neg_numeral)
  have qz: "toDouble (5 / 2) = Some (5 / 2)"
    using toDouble_representable [of 5 "- 1"] by (simp add: powr_neg_numeral)
  have rx: "round (3.25 / 2 :: real) = 2" and ry: "round (- 0.75 / 2 :: real) = 0"
    and rz: "round (5 / 2 :: real) = 3"
    by (simp_all add: round_def)
  note th = snapToGridDouble_idempotent_when_exact [OF pos]
  have hx: "toDouble (3.25 / 2) = Some (3.25 / 2) \<and> (2::real) = of_int 2
      \<and> \<bar>of_int (round (3.25 / 2 :: real)) * 2 :: real\<bar> < 2 ^ 53"
    using qx by (simp add: round_def)
  have hy: "toDouble (- 0.75 / 2) = Some (- 0.75 / 2) \<and> (2::real) = of_int 2
      \<and> \<bar>of_int (round (- 0.75 / 2 :: real)) * 2 :: real\<bar> < 2 ^ 53"
    using qy by (simp add: round_def)
  have hz: "toDouble (5 / 2) = Some (5 / 2) \<and> (2::real) = of_int 2
      \<and> \<bar>of_int (round (5 / 2 :: real)) * 2 :: real\<bar> < 2 ^ 53"
    using qz by (simp add: round_def)
  have ex: "exactSnap 2 3.25"
    using th [where v = "3.25" and q = "3.25 / 2" and k = 2] hx by blast
  have ey: "exactSnap 2 (- 0.75)"
    using th [where v = "- 0.75" and q = "- 0.75 / 2" and k = 2] hy by blast
  have ez: "exactSnap 2 5"
    using th [where v = 5 and q = "5 / 2" and k = 2] hz by blast
  have all: "\<forall>a. exactSnap 2 (component a (Vector3 3.25 (- 0.75) 5))"
  proof
    fix a show "exactSnap 2 (component a (Vector3 3.25 (- 0.75) 5))"
      using ex ey ez by (cases a) simp_all
  qed
  from th [where p = "Vector3 3.25 (- 0.75) 5"] all obtain p' where
    s1: "snapToGridDouble 2 (Vector3 3.25 (- 0.75) 5) = Some p'"
    and s2: "snapToGridDouble 2 p' = Some p'"
    by blast
  have v: "snapToGridDouble 2 (Vector3 3.25 (- 0.75) 5) = Some (Vector3 4 0 6)"
    using toDouble_of_int [of 4] toDouble_of_int [of 0] toDouble_of_int [of 6] qx qy qz
    by (simp add: snapToGridDouble_def snapAxisDouble_def round_def)
  with s1 have "p' = Vector3 4 0 6" by simp
  with s2 have i: "snapToGridDouble 2 (Vector3 4 0 6) = Some (Vector3 4 0 6)" by simp
  from th [where v = "3.25"] ex qx have n: "snapAxisDouble 2 3.25 = Some (snapAxis 2 3.25)
      \<and> (\<forall>n::int. \<bar>snapAxis 2 3.25 - 3.25\<bar> \<le> \<bar>of_int n * 2 - 3.25\<bar>)"
    by blast
  then have n1: "\<bar>snapAxis 2 3.25 - 3.25\<bar> \<le> \<bar>of_int 1 * 2 - 3.25\<bar>" by blast
  from v i ex n n1 show ?thesis by blast
qed

subsection \<open>Rotation from the surface normal\<close>

lemma above_threshold_square:
  fixes c :: real
  assumes "\<bar>c\<bar> > 0.9"
  shows "c\<^sup>2 > 0.81"
proof -
  have "(0.9::real)\<^sup>2 < \<bar>c\<bar>\<^sup>2"
    using assms by (intro power_strict_mono) simp_all
  then show ?thesis by (simp add: power2_eq_square)
qed

lemma unit_one_dominant:
  assumes "unitLength n" and "\<bar>component a n\<bar> > 0.9" and "\<bar>component b n\<bar> > 0.9"
  shows "a = b"
proof (rule ccontr)
  assume ne: "a \<noteq> b"
  from assms(2) have sa: "(component a n)\<^sup>2 > 0.81" by (rule above_threshold_square)
  from assms(3) have sb: "(component b n)\<^sup>2 > 0.81" by (rule above_threshold_square)
  have nonneg: "0 \<le> (vec_x n)\<^sup>2" "0 \<le> (vec_y n)\<^sup>2" "0 \<le> (vec_z n)\<^sup>2" by simp_all
  from assms(1) have u: "(vec_x n)\<^sup>2 + (vec_y n)\<^sup>2 + (vec_z n)\<^sup>2 = 1"
    by (simp add: unitLength_def)
  from ne sa sb nonneg u show False
    by (cases a; cases b) simp_all
qed

lemma rotation_by_axis:
  assumes "unitLength n" and "\<bar>component a n\<bar> > 0.9"
  shows "calculateRotationFromNormal n = (if a = AxisX then Euler 0 (pi / 2) 0 else Euler 0 0 0)"
proof (cases a)
  case AxisX
  with assms have "\<not> \<bar>vec_y n\<bar> > 0.9"
    using unit_one_dominant [of n AxisX AxisY] by auto
  with AxisX assms show ?thesis by (simp add: calculateRotationFromNormal_def)
next
  case AxisY
  with assms show ?thesis by (simp add: calculateRotationFromNormal_def)
next
  case AxisZ
  with assms have "\<not> \<bar>vec_y n\<bar> > 0.9" "\<not> \<bar>vec_x n\<bar> > 0.9"
    using unit_one_dominant [of n AxisZ AxisY] unit_one_dominant [of n AxisZ AxisX] by auto
  with AxisZ show ?thesis by (simp add: calculateRotationFromNormal_def)
qed

text \<open>
  Claim C9. The rotation depends on the magnitudes of the components only, so it is the
  same whatever the signs of the dominant and of the other components. For a normal of
  unit length at most one component has a magnitude above 0.9; when one has, the rotation
  is fixed by which axis that is (unrotated for Y and for Z, a quarter turn about Y for
  X). A normal with no component magnitude above 0.9 gives the unrotated orientation.
  For a vector of any length the test of Y comes first: a Y component above 0.9 in
  magnitude gives the unrotated orientation, otherwise an X component above 0.9 gives the
  quarter turn.
\<close>

theorem calculateRotationFromNormal_dominant_axis:
  "(\<bar>vec_x n\<bar> = \<bar>vec_x n'\<bar> \<and> \<bar>vec_y n\<bar> = \<bar>vec_y n'\<bar> \<and> \<bar>vec_z n\<bar> = \<bar>vec_z n'\<bar>
      \<longrightarrow> calculateRotationFromNormal n = calculateRotationFromNormal n')
   \<and> (unitLength n \<and> unitLength n' \<and> \<bar>component a n\<bar> > 0.9 \<and> \<bar>component a n'\<bar> > 0.9
      \<longrightarrow> calculateRotationFromNormal n = calculateRotationFromNormal n'
        \<and> calculateRotationFromNormal n = (if a = AxisX then Euler 0 (pi / 2) 0 else Euler 0 0 0))
   \<and> ((\<forall>b. \<not> \<bar>component b n\<bar> > 0.9) \<longrightarrow> calculateRotationFromNormal n = Euler 0 0 0)
   \<and> (\<bar>vec_y n\<bar> > 0.9 \<longrightarrow> calculateRotationFromNormal n = Euler 0 0 0)
   \<and> (\<not> \<bar>vec_y n\<bar> > 0.9 \<and> \<bar>vec_x n\<bar> > 0.9
        \<longrightarrow> calculateRotationFromNormal n = Euler 0 (pi / 2) 0)"
proof (intro conjI impI)
  assume "\<bar>vec_x n\<bar> = \<bar>vec_x n'\<bar> \<and> \<bar>vec_y n\<bar> = \<bar>vec_y n'\<bar> \<and> \<bar>vec_z n\<bar> = \<bar>vec_z n'\<bar>"
  then show "calculateRotationFromNormal n = calculateRotationFromNormal n'"
    by (simp add: calculateRotationFromNormal_def)
next
  assume h: "unitLength n \<and> unitLength n' \<and> \<bar>component a n\<bar> > 0.9 \<and> \<bar>component a n'\<bar> > 0.9"
  then show "calculateRotationFromNormal n = calculateRotationFromNormal n'"
    using rotation_by_axis [of n a] rotation_by_axis [of n' a] by simp
  from h show "calculateRotationFromNormal n = (if a = AxisX then Euler 0 (pi / 2) 0 else Euler 0 0 0)"
    using rotation_by_axis [of n a] by simp
next
  assume h: "\<forall>b. \<not> \<bar>component b n\<bar> > 0.9"
  from h [rule_format, of AxisX] h [rule_format, of AxisY]
  show "calculateRotationFromNormal n = Euler 0 0 0"
    by (simp add: calculateRotationFromNormal_def)
next
  assume "\<bar>vec_y n\<bar> > 0.9"
  then show "calculateRotationFromNormal n = Euler 0 0 0"
    by (simp add: calculateRotationFromNormal_def)
next
  assume "\<not> \<bar>vec_y n\<bar> > 0.9 \<and> \<bar>vec_x n\<bar> > 0.9"
  then show "calculateRotationFromNormal n = Euler 0 (pi / 2) 0"
    by (simp add: calculateRotationFromNormal_def)
qed

theorem calculateRotationFromNormal_dominant_axis_witness:
  "calculateRotationFromNormal (Vector3 1 0 0) = calculateRotationFromNormal (Vector3 (- 1) 0 0)
   \<and> calculateRotationFromNormal (Vector3 0.96 0.28 0) = calculateRotationFromNormal (Vector3 (- 0.96) 0 (- 0.28))
   \<and> calculateRotationFromNormal (Vector3 0.96 0.28 0) = Euler 0 (pi / 2) 0
   \<and> calculateRotationFromNormal (Vector3 0.6 0.8 0) = Euler 0 0 0"
proof -
  have u1: "unitLength (Vector3 0.96 0.28 0)" and u2: "unitLength (Vector3 (- 0.96) 0 (- 0.28))"
    by (simp_all add: unitLength_def power2_eq_square)
  have s: "calculateRotationFromNormal (Vector3 1 0 0) = calculateRotationFromNormal (Vector3 (- 1) 0 0)"
    using calculateRotationFromNormal_dominant_axis [of "Vector3 1 0 0" "Vector3 (- 1) 0 0" AxisX]
    by simp
  have h: "unitLength (Vector3 0.96 0.28 0) \<and> unitLength (Vector3 (- 0.96) 0 (- 0.28))
      \<and> \<bar>component AxisX (Vector3 0.96 0.28 0)\<bar> > 0.9
      \<and> \<bar>component AxisX (Vector3 (- 0.96) 0 (- 0.28))\<bar> > 0.9"
    using u1 u2 by simp
  have d1: "calculateRotationFromNormal (Vector3 0.96 0.28 0) = calculateRotationFromNormal (Vector3 (- 0.96) 0 (- 0.28))"
    using calculateRotationFromNormal_dominant_axis
      [of "Vector3 0.96 0.28 0" "Vector3 (- 0.96) 0 (- 0.28)" AxisX] h
    by blast
  have "calculateRotationFromNormal (Vector3 0.96 0.28 0) = (if AxisX = AxisX then Euler 0 (pi / 2) 0 else Euler 0 0 0)"
    using calculateRotationFromNormal_dominant_axis
      [of "Vector3 0.96 0.28 0" "Vector3 (- 0.96) 0 (- 0.28)" AxisX] h
    by blast
  then have d2: "calculateRotationFromNormal (Vector3 0.96 0.28 0) = Euler 0 (pi / 2) 0"
    by simp
  note d = conjI [OF d1 d2]
  have "\<forall>b. \<not> \<bar>component b (Vector3 0.6 0.8 0)\<bar> > 0.9"
  proof
    fix b show "\<not> \<bar>component b (Vector3 0.6 0.8 0)\<bar> > 0.9" by (cases b) simp_all
  qed
  then have e: "calculateRotationFromNormal (Vector3 0.6 0.8 0) = Euler 0 0 0"
    using calculateRotationFromNormal_dominant_axis [of "Vector3 0.6 0.8 0" "Vector3 0.6 0.8 0" AxisX]
    by blast
  from s d e show ?thesis by blast
qed

subsection \<open>The build timer\<close>

lemma deref_call [simp]: "deref (call c st) a = deref st a"
  by (simp add: deref_def call_def)

lemma deref_intervals_update [simp]: "deref (st\<lparr>intervals := xs\<rparr>) a = deref st a"
  by (simp add: deref_def)

lemma deref_Some_length: "deref st a = Some s \<Longrightarrow> a < length (heap st) \<and> heap st ! a = s"
  by (simp add: deref_def split: if_splits)

lemma deref_heap_same:
  "a < length (heap st) \<Longrightarrow> deref (st\<lparr>heap := (heap st)[a := s]\<rparr>) a = Some s"
  by (simp add: deref_def)

lemma animateBuildTick_unfinished:
  assumes d: "deref st a = Some s" and b: "isBuilding s" and p: "progressAt s now < 1"
  shows "animateBuildTick a now st =
           st\<lparr>heap := (heap st)[a := s\<lparr>hp := maxHp s * progressAt s now,
                   mesh := (mesh s)\<lparr>scale := Vector3 (0.5 + 0.5 * progressAt s now)
                      (0.5 + 0.5 * progressAt s now) (0.5 + 0.5 * progressAt s now)\<rparr>\<rparr>]\<rparr>"
proof -
  from p have "\<not> 1 \<le> min ((now - builtAt s) / 1000 / buildTime s) 1"
    by (simp add: progressAt_def not_le)
  with d b show ?thesis
    unfolding animateBuildTick_def progressAt_def Let_def by simp
qed

lemma animateBuildTick_finished:
  assumes d: "deref st a = Some s" and b: "isBuilding s" and p: "1 \<le> progressAt s now"
  shows "animateBuildTick a now st =
           st\<lparr>heap := (heap st)[a := s\<lparr>hp := maxHp s * progressAt s now,
                   mesh := (mesh s)\<lparr>scale := Vector3 (0.5 + 0.5 * progressAt s now)
                      (0.5 + 0.5 * progressAt s now) (0.5 + 0.5 * progressAt s now)\<rparr>,
                   isBuilding := False\<rparr>],
              intervals := removeAll a (intervals st)\<rparr>"
proof -
  from p have "1 \<le> min ((now - builtAt s) / 1000 / buildTime s) 1"
    by (simp add: progressAt_def)
  with d b show ?thesis
    unfolding animateBuildTick_def progressAt_def Let_def by simp
qed

lemma progressAt_clamp:
  assumes "builtAt s \<le> now" and "0 < buildTime s"
  shows "progressAt s now = max 0 (min 1 ((now - builtAt s) / 1000 / buildTime s))"
proof -
  from assms have "0 \<le> (now - builtAt s) / 1000 / buildTime s" by simp
  then show ?thesis by (simp add: progressAt_def min.commute)
qed

lemma progressAt_finished_iff:
  assumes "0 < buildTime s"
  shows "1 \<le> progressAt s now \<longleftrightarrow> builtAt s + buildTime s * 1000 \<le> now"
  using assms by (simp add: progressAt_def pos_le_divide_eq algebra_simps)

lemma intervalFires_cleared: "a \<notin> set (intervals st) \<Longrightarrow> intervalFires a now st = st"
  by (simp add: intervalFires_def)

lemma runTicks_cleared: "a \<notin> set (intervals st) \<Longrightarrow> runTicks a ts st = st"
  by (induction ts) (simp_all add: intervalFires_cleared)

lemma runTicks_append: "runTicks a (ts @ us) st = runTicks a us (runTicks a ts st)"
  by (induction ts arbitrary: st) simp_all

lemma tick_underConstruction:
  assumes u: "underConstruction st a s0" and p: "progressAt s0 now < 1"
  shows "underConstruction (intervalFires a now st) a s0"
    and "\<exists>s'. deref (intervalFires a now st) a = Some s' \<and> hp s' = maxHp s0 * progressAt s0 now"
proof -
  from u obtain s where d: "deref st a = Some s" and b: "isBuilding s"
    and f: "maxHp s = maxHp s0" "buildTime s = buildTime s0" "builtAt s = builtAt s0"
    and i: "a \<in> set (intervals st)"
    by (auto simp: underConstruction_def split: option.splits)
  from f have pe: "progressAt s now = progressAt s0 now" by (simp add: progressAt_def)
  from d have l: "a < length (heap st)" by (simp add: deref_Some_length)
  have t: "intervalFires a now st =
      st\<lparr>heap := (heap st)[a := s\<lparr>hp := maxHp s * progressAt s now,
                   mesh := (mesh s)\<lparr>scale := Vector3 (0.5 + 0.5 * progressAt s now)
                      (0.5 + 0.5 * progressAt s now) (0.5 + 0.5 * progressAt s now)\<rparr>\<rparr>]\<rparr>"
    using i animateBuildTick_unfinished [OF d b] p pe by (simp add: intervalFires_def)
  show "underConstruction (intervalFires a now st) a s0"
    unfolding t underConstruction_def using l b f i by (simp add: deref_heap_same)
  show "\<exists>s'. deref (intervalFires a now st) a = Some s' \<and> hp s' = maxHp s0 * progressAt s0 now"
    unfolding t using l f pe by (simp add: deref_heap_same)
qed

lemma tick_completes:
  assumes u: "underConstruction st a s0" and p: "1 \<le> progressAt s0 now"
  shows "completed (intervalFires a now st) a s0"
proof -
  from u obtain s where d: "deref st a = Some s" and b: "isBuilding s"
    and f: "maxHp s = maxHp s0" "buildTime s = buildTime s0" "builtAt s = builtAt s0"
    and i: "a \<in> set (intervals st)"
    by (auto simp: underConstruction_def split: option.splits)
  from f have pe: "progressAt s now = progressAt s0 now" by (simp add: progressAt_def)
  from p have p1: "progressAt s0 now = 1" by (simp add: progressAt_def)
  from d have l: "a < length (heap st)" by (simp add: deref_Some_length)
  have t: "intervalFires a now st =
           st\<lparr>heap := (heap st)[a := s\<lparr>hp := maxHp s * progressAt s now,
                   mesh := (mesh s)\<lparr>scale := Vector3 (0.5 + 0.5 * progressAt s now)
                      (0.5 + 0.5 * progressAt s now) (0.5 + 0.5 * progressAt s now)\<rparr>,
                   isBuilding := False\<rparr>],
              intervals := removeAll a (intervals st)\<rparr>"
    using i animateBuildTick_finished [OF d b] p pe by (simp add: intervalFires_def)
  show ?thesis
    unfolding t completed_def using l f pe p1 by (simp add: deref_def)
qed

lemma runTicks_completed: "completed st a s0 \<Longrightarrow> runTicks a ts st = st"
  by (rule runTicks_cleared) (auto simp: completed_def split: option.splits)

lemma runTicks_unfinished:
  assumes "underConstruction st a s0" and "\<forall>t\<in>set ts. progressAt s0 t < 1"
  shows "underConstruction (runTicks a ts st) a s0"
  using assms by (induction ts arbitrary: st) (simp_all add: tick_underConstruction(1))

lemma runTicks_any:
  assumes "underConstruction st a s0 \<or> completed st a s0"
  shows "underConstruction (runTicks a ts st) a s0 \<or> completed (runTicks a ts st) a s0"
  using assms
proof (induction ts arbitrary: st)
  case Nil
  then show ?case by simp
next
  case (Cons t ts)
  have "underConstruction (intervalFires a t st) a s0 \<or> completed (intervalFires a t st) a s0"
  proof (cases "completed st a s0")
    case True
    then have "intervalFires a t st = st"
      using runTicks_completed [of st a s0 "[t]"] by simp
    with True show ?thesis by simp
  next
    case False
    with Cons.prems have u: "underConstruction st a s0" by simp
    show ?thesis
    proof (cases "progressAt s0 t < 1")
      case True
      with u show ?thesis by (simp add: tick_underConstruction(1))
    next
      case False
      with u show ?thesis by (simp add: tick_completes not_less)
    qed
  qed
  then show ?case using Cons.IH by simp
qed

lemma runTicks_then_finish:
  assumes s: "underConstruction st a s0 \<or> completed st a s0" and p: "1 \<le> progressAt s0 T"
  shows "completed (runTicks a (ts @ [T]) st) a s0"
proof -
  from runTicks_any [OF s, of ts]
  consider "underConstruction (runTicks a ts st) a s0" | "completed (runTicks a ts st) a s0"
    by blast
  then show ?thesis
  proof cases
    case 1
    then show ?thesis using p by (simp add: runTicks_append tick_completes)
  next
    case 2
    then show ?thesis using runTicks_completed [OF 2, of "[T]"] by (simp add: runTicks_append)
  qed
qed

lemma createStructure_fields:
  assumes c: "createStructure newId now type pos rot st = (a, st')"
  shows "a = length (heap st)"
    and "\<exists>s. deref st' a = Some s \<and> sid s = newId \<and> buildType s = type
           \<and> structMaterial s = currentMaterial st
           \<and> hp s = props_hp (materialProps st (currentMaterial st))
           \<and> maxHp s = props_hp (materialProps st (currentMaterial st))
           \<and> buildTime s = props_buildTime (materialProps st (currentMaterial st))
           \<and> builtAt s = now \<and> isBuilding s
           \<and> position (mesh s) = pos \<and> rotation (mesh s) = rot
           \<and> bodyPosition (body s) = pos \<and> shape (body s) = createPhysicsShape type
           \<and> mass (body s) = 0 \<and> heap st' = heap st @ [s]"
    and "intervals st' = intervals st @ [a]"
    and "calls st' = calls st" and "structures st' = structures st"
    and "resources st' = resources st" and "currentBuildMode st' = currentBuildMode st"
    and "currentMaterial st' = currentMaterial st" and "costs st' = costs st"
    and "placementValid st' = placementValid st" and "ghostPiece st' = ghostPiece st"
    and "ghostMeshes st' = ghostMeshes st"
  using c by (auto simp: createStructure_def newStructure_def animateBuild_def deref_def Let_def)

lemma createStructure_underConstruction:
  assumes c: "createStructure newId now type pos rot st = (a, st')"
  shows "\<exists>s. deref st' a = Some s \<and> underConstruction st' a s
           \<and> maxHp s = props_hp (materialProps st (currentMaterial st))
           \<and> buildTime s = props_buildTime (materialProps st (currentMaterial st))
           \<and> builtAt s = now"
proof -
  from createStructure_fields(2) [OF c] obtain s where
    s: "deref st' a = Some s" "isBuilding s"
       "maxHp s = props_hp (materialProps st (currentMaterial st))"
       "buildTime s = props_buildTime (materialProps st (currentMaterial st))"
       "builtAt s = now"
    by blast
  moreover have "a \<in> set (intervals st')" using createStructure_fields(3) [OF c] by simp
  ultimately have "underConstruction st' a s" by (simp add: underConstruction_def)
  with s show ?thesis by blast
qed

lemma tick_formula:
  assumes d: "deref st a = Some s" and b: "isBuilding s" and t: "builtAt s \<le> now" and bt: "0 < buildTime s"
  shows "\<exists>s'. deref (animateBuildTick a now st) a = Some s'
            \<and> hp s' = maxHp s * max 0 (min 1 ((now - builtAt s) / 1000 / buildTime s))
            \<and> (isBuilding s' \<longleftrightarrow> now < builtAt s + buildTime s * 1000)"
proof -
  from d have l: "a < length (heap st)" by (simp add: deref_Some_length)
  show ?thesis
  proof (cases "1 \<le> progressAt s now")
    case True
    then have "\<not> now < builtAt s + buildTime s * 1000"
      using progressAt_finished_iff [OF bt, of now] by simp
    then show ?thesis
      unfolding animateBuildTick_finished [OF d b True] progressAt_clamp [OF t bt]
      using l by (simp add: deref_def)
  next
    case False
    then have lt: "progressAt s now < 1" by simp
    from False have "now < builtAt s + buildTime s * 1000"
      using progressAt_finished_iff [OF bt, of now] by simp
    then show ?thesis
      unfolding animateBuildTick_unfinished [OF d b lt] progressAt_clamp [OF t bt]
      using l b by (simp add: deref_def)
  qed
qed

text \<open>
  Claim C1. Each call of the timer's function on a structure under construction sets
  \<open>hp\<close> to \<open>maxHp\<close> times the elapsed share of the build time, clamped to the range
  from 0 to 1 (the clock does not run backwards: \<open>builtAt s \<le> now\<close>). For a wooden
  structure (\<open>maxHp\<close> 150, \<open>buildTime\<close> 4) created at \<open>t0\<close>: after any ticks before
  completion, a tick 2 seconds after creation leaves \<open>hp\<close> at 75; after any ticks, a tick
  4 seconds or more after creation leaves \<open>hp\<close> at 150, \<open>isBuilding\<close> false and the
  timer cleared, and no later firing changes anything.
\<close>

theorem animateBuild_progress:
  "(deref st a = Some s \<and> isBuilding s \<and> builtAt s \<le> now \<and> 0 < buildTime s \<longrightarrow>
      (\<exists>s'. deref (animateBuildTick a now st) a = Some s'
            \<and> hp s' = maxHp s * max 0 (min 1 ((now - builtAt s) / 1000 / buildTime s))
            \<and> (isBuilding s' \<longleftrightarrow> now < builtAt s + buildTime s * 1000)))
   \<and> (currentMaterial st0 = Wood \<and> materialProps st0 Wood = Props 150 4
        \<and> createStructure newId t0 type pos rot st0 = (a0, st1) \<longrightarrow>
        ((\<forall>t\<in>set ts. t < t0 + 4000) \<longrightarrow>
           (\<exists>s'. deref (runTicks a0 (ts @ [t0 + 2000]) st1) a0 = Some s' \<and> hp s' = 75 \<and> isBuilding s'))
      \<and> (t0 + 4000 \<le> T \<longrightarrow>
           (\<exists>s'. deref (runTicks a0 (us @ [T]) st1) a0 = Some s' \<and> hp s' = 150 \<and> \<not> isBuilding s')
           \<and> a0 \<notin> set (intervals (runTicks a0 (us @ [T]) st1))
           \<and> runTicks a0 vs (runTicks a0 (us @ [T]) st1) = runTicks a0 (us @ [T]) st1))"
proof (intro conjI impI)
  assume "deref st a = Some s \<and> isBuilding s \<and> builtAt s \<le> now \<and> 0 < buildTime s"
  then show "\<exists>s'. deref (animateBuildTick a now st) a = Some s'
            \<and> hp s' = maxHp s * max 0 (min 1 ((now - builtAt s) / 1000 / buildTime s))
            \<and> (isBuilding s' \<longleftrightarrow> now < builtAt s + buildTime s * 1000)"
    using tick_formula by blast
next
  assume h: "currentMaterial st0 = Wood \<and> materialProps st0 Wood = Props 150 4
        \<and> createStructure newId t0 type pos rot st0 = (a0, st1)"
  then obtain s0 where u: "underConstruction st1 a0 s0" and m: "maxHp s0 = 150"
    and bt: "buildTime s0 = 4" and ba: "builtAt s0 = t0"
    using createStructure_underConstruction [of newId t0 type pos rot st0 a0 st1] by auto
  have pr: "progressAt s0 t = min ((t - t0) / 4000) 1" for t
    by (simp add: progressAt_def bt ba)
  {
    assume e: "\<forall>t\<in>set ts. t < t0 + 4000"
    then have "\<forall>t\<in>set ts. progressAt s0 t < 1"
      by (auto simp: pr min_less_iff_disj)
    then have u2: "underConstruction (runTicks a0 ts st1) a0 s0"
      by (rule runTicks_unfinished [OF u])
    have p2: "progressAt s0 (t0 + 2000) < 1" by (simp add: pr)
    have p3: "progressAt s0 (t0 + 2000) = 1 / 2" by (simp add: pr)
    from tick_underConstruction [OF u2 p2]
    show "\<exists>s'. deref (runTicks a0 (ts @ [t0 + 2000]) st1) a0 = Some s' \<and> hp s' = 75 \<and> isBuilding s'"
      by (auto simp: runTicks_append m p3 underConstruction_def split: option.splits)
  }
  {
    assume e: "t0 + 4000 \<le> T"
    then have "1 \<le> progressAt s0 T" by (simp add: pr)
    then have c: "completed (runTicks a0 (us @ [T]) st1) a0 s0"
      using runTicks_then_finish [of st1 a0 s0 T us] u by blast
    then show "\<exists>s'. deref (runTicks a0 (us @ [T]) st1) a0 = Some s' \<and> hp s' = 150 \<and> \<not> isBuilding s'"
      by (auto simp: completed_def m split: option.splits)
    from c show "a0 \<notin> set (intervals (runTicks a0 (us @ [T]) st1))"
      by (auto simp: completed_def split: option.splits)
    from c show "runTicks a0 vs (runTicks a0 (us @ [T]) st1) = runTicks a0 (us @ [T]) st1"
      by (rule runTicks_completed)
  }
qed

theorem animateBuild_progress_witness:
  "map_option hp (deref (animateBuildTick 0 1000 woodStart) 0) = Some (150 * (1 / 4))
   \<and> map_option hp (deref (runTicks 0 ([100, 1900] @ [0 + 2000]) woodStart) 0) = Some 75
   \<and> map_option hp (deref (runTicks 0 ([100, 3900] @ [4100]) woodStart) 0) = Some 150
   \<and> map_option isBuilding (deref (runTicks 0 ([100, 3900] @ [4100]) woodStart) 0) = Some False
   \<and> 0 \<notin> set (intervals (runTicks 0 ([100, 3900] @ [4100]) woodStart))
   \<and> runTicks 0 [4200, 4300] (runTicks 0 ([100, 3900] @ [4100]) woodStart)
       = runTicks 0 ([100, 3900] @ [4100]) woodStart"
proof -
  define s0 where "s0 = heap woodStart ! 0"
  have c: "createStructure ''structure_1'' 0 Wall (Vector3 0 0 0) (Euler 0 0 0)
             (constructor (\<lambda>m. 100)) = (0, woodStart)"
    by (simp add: woodStart_def createStructure_def constructor_def Let_def)
  have w: "currentMaterial (constructor (\<lambda>m. 100)) = Wood
      \<and> materialProps (constructor (\<lambda>m. 100)) Wood = Props 150 4"
    by (simp add: constructor_def)
  have d: "deref woodStart 0 = Some s0 \<and> isBuilding s0 \<and> builtAt s0 \<le> 1000 \<and> 0 < buildTime s0"
    by (simp add: s0_def woodStart_def createStructure_def newStructure_def constructor_def
        animateBuild_def deref_def Let_def)
  have v: "maxHp s0 = 150 \<and> builtAt s0 = 0 \<and> buildTime s0 = 4"
    by (simp add: s0_def woodStart_def createStructure_def newStructure_def constructor_def
        animateBuild_def deref_def Let_def)
  have t1: "\<forall>t\<in>set [100, 1900::real]. t < 0 + 4000" by simp
  have t2: "(0::real) + 4000 \<le> 4100" by simp
  note th = animateBuild_progress [of woodStart 0 s0 1000 "constructor (\<lambda>m. 100)"
      "''structure_1''" 0 Wall "Vector3 0 0 0" "Euler 0 0 0" 0 woodStart "[100, 1900]"
      4100 "[100, 3900]" "[4200, 4300]"]
  from th d v have "map_option hp (deref (animateBuildTick 0 1000 woodStart) 0) = Some (150 * (1 / 4))"
    by auto
  moreover from th c w t1
  have "map_option hp (deref (runTicks 0 ([100, 1900] @ [0 + 2000]) woodStart) 0) = Some 75"
    by auto
  moreover from th c w t2
  have "map_option hp (deref (runTicks 0 ([100, 3900] @ [4100]) woodStart) 0) = Some 150
     \<and> map_option isBuilding (deref (runTicks 0 ([100, 3900] @ [4100]) woodStart) 0) = Some False
     \<and> 0 \<notin> set (intervals (runTicks 0 ([100, 3900] @ [4100]) woodStart))
     \<and> runTicks 0 [4200, 4300] (runTicks 0 ([100, 3900] @ [4100]) woodStart)
         = runTicks 0 ([100, 3900] @ [4100]) woodStart"
    by auto
  ultimately show ?thesis by blast
qed

subsection \<open>Creating and placing a structure\<close>

lemma placeBuild_invalid: "\<not> placementValid st \<Longrightarrow> placeBuild newId now st = (Returned False, st)"
  by (simp add: placeBuild_def)

lemma placeBuild_valid:
  assumes v: "placementValid st" and g: "ghostPiece st = Some g"
  shows "placeBuild newId now st =
      (Returned True,
       st\<lparr>resources := (resources st)
              (currentMaterial st := resources st (currentMaterial st) - costs st (currentBuildMode st)),
          heap := heap st @ [newStructure newId now (currentBuildMode st)
                    (position (ghostMeshes st g)) (rotation (ghostMeshes st g)) st],
          intervals := intervals st @ [length (heap st)],
          structures := structures st @ [length (heap st)],
          calls := calls st @
            [SceneAdd (StructureMesh (length (heap st))),
             PhysicsAddBody newId (body (newStructure newId now (currentBuildMode st)
                    (position (ghostMeshes st g)) (rotation (ghostMeshes st g)) st)),
             NetworkSend (NetEvent ''build'' (currentBuildMode st)
                (position (ghostMeshes st g)) (rotation (ghostMeshes st g)))]\<rparr>)"
  using v g
  by (simp add: placeBuild_def createStructure_def newStructure_def animateBuild_def call_def
      deref_def Let_def)

lemma newStructure_fields:
  "sid (newStructure newId now type pos rot st) = newId"
  "buildType (newStructure newId now type pos rot st) = type"
  "structMaterial (newStructure newId now type pos rot st) = currentMaterial st"
  "hp (newStructure newId now type pos rot st) = props_hp (materialProps st (currentMaterial st))"
  "maxHp (newStructure newId now type pos rot st) = props_hp (materialProps st (currentMaterial st))"
  "buildTime (newStructure newId now type pos rot st) = props_buildTime (materialProps st (currentMaterial st))"
  "builtAt (newStructure newId now type pos rot st) = now"
  "isBuilding (newStructure newId now type pos rot st) = True"
  "position (mesh (newStructure newId now type pos rot st)) = pos"
  "rotation (mesh (newStructure newId now type pos rot st)) = rot"
  "scale (mesh (newStructure newId now type pos rot st)) = Vector3 1 1 1"
  "geometry (mesh (newStructure newId now type pos rot st)) = geometry (ghostMeshes st type)"
  "shape (body (newStructure newId now type pos rot st)) = createPhysicsShape type"
  "mass (body (newStructure newId now type pos rot st)) = 0"
  "bodyPosition (body (newStructure newId now type pos rot st)) = pos"
  "quaternion (body (newStructure newId now type pos rot st)) = rot"
  by (simp_all add: newStructure_def Let_def)

lemma createStructure_eq:
  "createStructure newId now type pos rot st =
     (length (heap st),
      st\<lparr>heap := heap st @ [newStructure newId now type pos rot st],
         intervals := intervals st @ [length (heap st)]\<rparr>)"
  by (simp add: createStructure_def animateBuild_def Let_def)

lemma previewWall_facts:
  "placementValid previewWall" "ghostPiece previewWall = Some Wall"
  "currentBuildMode previewWall = Wall" "currentMaterial previewWall = Wood"
  "isBuildingMode previewWall"
  "structures previewWall = []" "heap previewWall = []" "intervals previewWall = []"
  "resources previewWall = (\<lambda>m. 100)" "costs previewWall = (\<lambda>m. 10)"
  "materialProps previewWall = initialMaterialProps"
  "position (ghostMeshes previewWall Wall) = Vector3 0 0 0"
  "rotation (ghostMeshes previewWall Wall) = Euler 0 0 0"
  "geometry (ghostMeshes previewWall Wall) = BoxGeometry 2 2 0.2"
  "geometry (ghostMeshes previewWall Floor) = BoxGeometry 2 0.2 2"
  "gridSize previewWall = 2"
  "calls previewWall = [SceneAdd (GhostMesh Wall), SceneAdd (GhostMesh Floor),
                         SceneAdd (GhostMesh Ramp), SceneAdd (GhostMesh Roof)]"
  by (simp_all add: previewWall_def groundHit_def update_def enterBuildMode_def setVisible_def
      constructor_def calculatePlacement_def moveGhost_def checkPlacementValid_def
      snapToGrid_def snapAxis_def round_def calculateRotationFromNormal_def createGhostMesh_def
      Let_def)


lemma woodStart_eq:
  "createStructure ''structure_1'' 0 Wall (Vector3 0 0 0) (Euler 0 0 0) (constructor (\<lambda>m. 100))
     = (0, woodStart)"
  by (simp add: woodStart_def createStructure_eq constructor_def)

lemma woodStart_facts:
  "deref woodStart 0 = Some (newStructure ''structure_1'' 0 Wall (Vector3 0 0 0) (Euler 0 0 0)
                               (constructor (\<lambda>m. 100)))"
  "intervals woodStart = [0]" "structures woodStart = []"
  "calls woodStart = [SceneAdd (GhostMesh Wall), SceneAdd (GhostMesh Floor),
                      SceneAdd (GhostMesh Ramp), SceneAdd (GhostMesh Roof)]"
  "currentMaterial (constructor (\<lambda>m. 100)) = Wood"
  "materialProps (constructor (\<lambda>m. 100)) = initialMaterialProps"
  by (simp_all add: woodStart_def createStructure_eq deref_def constructor_def)

text \<open>
  Claim C2, as stated, fails on a wooden wall created in a new system: the new structure
  has \<open>hp\<close> 150 (its \<open>maxHp\<close>), not 0, and \<^verbatim>\<open>createStructure\<close> has made no call
  to the scene or to the physics world (the calls are those of the constructor) and has
  not put the structure into the registry.
\<close>

theorem createStructure_counterexample:
  "map_option hp (deref woodStart 0) = Some 150
   \<and> map_option maxHp (deref woodStart 0) = Some 150
   \<and> map_option isBuilding (deref woodStart 0) = Some True
   \<and> structures woodStart = []
   \<and> calls woodStart = [SceneAdd (GhostMesh Wall), SceneAdd (GhostMesh Floor),
                         SceneAdd (GhostMesh Ramp), SceneAdd (GhostMesh Roof)]
   \<and> calls woodStart = calls (constructor (\<lambda>m. 100))"
  by (simp add: woodStart_facts newStructure_fields) (simp add: constructor_def)

text \<open>
  Claim C2, amended. \<^verbatim>\<open>createStructure\<close> returns a new structure object that is under
  construction (\<open>isBuilding\<close> true), built at the current time, with \<open>maxHp\<close> and
  \<open>buildTime\<close> of the current material and with its build timer started; it calls
  neither the scene nor the physics world and leaves the registry as it is. The caller
  \<^verbatim>\<open>placeBuild\<close> then appends the structure to the registry, adds its mesh to the scene
  and its body to the physics world under the structure's id, and sends the build event.
\<close>

theorem createStructure_starts_construction:
  "(createStructure newId now type pos rot st = (a, st') \<longrightarrow>
      (\<exists>s. deref st' a = Some s \<and> sid s = newId \<and> buildType s = type
            \<and> structMaterial s = currentMaterial st \<and> isBuilding s \<and> builtAt s = now
            \<and> maxHp s = props_hp (materialProps st (currentMaterial st))
            \<and> buildTime s = props_buildTime (materialProps st (currentMaterial st))
            \<and> position (mesh s) = pos \<and> rotation (mesh s) = rot
            \<and> bodyPosition (body s) = pos \<and> shape (body s) = createPhysicsShape type
            \<and> mass (body s) = 0)
      \<and> a = length (heap st) \<and> intervals st' = intervals st @ [a]
      \<and> calls st' = calls st \<and> structures st' = structures st)
   \<and> (placementValid ps \<and> ghostPiece ps = Some g \<and> placeBuild pid pnow ps = (r, ps') \<longrightarrow>
        structures ps' = structures ps @ [length (heap ps)]
        \<and> (\<exists>s. deref ps' (length (heap ps)) = Some s
              \<and> calls ps' = calls ps @
                  [SceneAdd (StructureMesh (length (heap ps))),
                   PhysicsAddBody (sid s) (body s),
                   NetworkSend (NetEvent ''build'' (currentBuildMode ps)
                      (position (mesh s)) (rotation (mesh s)))]))"
proof (intro conjI impI)
  assume c: "createStructure newId now type pos rot st = (a, st')"
  then have a: "a = length (heap st)"
    and st': "st' = st\<lparr>heap := heap st @ [newStructure newId now type pos rot st],
                       intervals := intervals st @ [length (heap st)]\<rparr>"
    by (auto simp: createStructure_eq)
  show "a = length (heap st)" by (rule a)
  show "intervals st' = intervals st @ [a]" by (simp add: st' a)
  show "calls st' = calls st" by (simp add: st')
  show "structures st' = structures st" by (simp add: st')
  have "deref st' a = Some (newStructure newId now type pos rot st)"
    by (simp add: st' a deref_def)
  then show "\<exists>s. deref st' a = Some s \<and> sid s = newId \<and> buildType s = type
            \<and> structMaterial s = currentMaterial st \<and> isBuilding s \<and> builtAt s = now
            \<and> maxHp s = props_hp (materialProps st (currentMaterial st))
            \<and> buildTime s = props_buildTime (materialProps st (currentMaterial st))
            \<and> position (mesh s) = pos \<and> rotation (mesh s) = rot
            \<and> bodyPosition (body s) = pos \<and> shape (body s) = createPhysicsShape type
            \<and> mass (body s) = 0"
    by (simp add: newStructure_fields)
next
  assume h: "placementValid ps \<and> ghostPiece ps = Some g \<and> placeBuild pid pnow ps = (r, ps')"
  then have e: "ps' = snd (placeBuild pid pnow ps)" by simp
  from h have v: "placementValid ps" and g: "ghostPiece ps = Some g" by simp_all
  show "structures ps' = structures ps @ [length (heap ps)]"
    unfolding e placeBuild_valid [OF v g] by simp
  show "\<exists>s. deref ps' (length (heap ps)) = Some s
              \<and> calls ps' = calls ps @
                  [SceneAdd (StructureMesh (length (heap ps))),
                   PhysicsAddBody (sid s) (body s),
                   NetworkSend (NetEvent ''build'' (currentBuildMode ps)
                      (position (mesh s)) (rotation (mesh s)))]"
    unfolding e placeBuild_valid [OF v g] by (simp add: deref_def newStructure_fields)
qed

theorem createStructure_starts_construction_witness:
  "map_option isBuilding (deref woodStart 0) = Some True
   \<and> map_option maxHp (deref woodStart 0) = Some 150
   \<and> map_option buildTime (deref woodStart 0) = Some 4
   \<and> intervals woodStart = intervals (constructor (\<lambda>m. 100)) @ [0]
   \<and> calls woodStart = calls (constructor (\<lambda>m. 100))
   \<and> structures wallPlaced = structures previewWall @ [0]
   \<and> calls wallPlaced = calls previewWall @
        [SceneAdd (StructureMesh 0),
         PhysicsAddBody ''structure_1''
           \<lparr>shape = Vector3 1 1 0.1, mass = 0, bodyPosition = Vector3 0 0 0, quaternion = Euler 0 0 0\<rparr>,
         NetworkSend (NetEvent ''build'' Wall (Vector3 0 0 0) (Euler 0 0 0))]"
proof -
  note th = createStructure_starts_construction [where newId = "''structure_1''" and now = 0
      and type = Wall and pos = "Vector3 0 0 0" and rot = "Euler 0 0 0"
      and st = "constructor (\<lambda>m. 100)" and a = 0 and st' = woodStart
      and ps = previewWall and g = Wall and pid = "''structure_1''" and pnow = 0
      and r = "fst (placeBuild ''structure_1'' 0 previewWall)" and ps' = wallPlaced]
  have p: "placementValid previewWall \<and> ghostPiece previewWall = Some Wall
      \<and> placeBuild ''structure_1'' 0 previewWall
          = (fst (placeBuild ''structure_1'' 0 previewWall), wallPlaced)"
    by (simp add: previewWall_facts wallPlaced_def)
  from th woodStart_eq have
    "\<exists>s. deref woodStart 0 = Some s \<and> isBuilding s
        \<and> maxHp s = props_hp (materialProps (constructor (\<lambda>m. 100)) (currentMaterial (constructor (\<lambda>m. 100))))
        \<and> buildTime s = props_buildTime (materialProps (constructor (\<lambda>m. 100)) (currentMaterial (constructor (\<lambda>m. 100))))"
    and i: "intervals woodStart = intervals (constructor (\<lambda>m. 100)) @ [0]"
    and c: "calls woodStart = calls (constructor (\<lambda>m. 100))"
    by blast+
  then have d: "map_option isBuilding (deref woodStart 0) = Some True
     \<and> map_option maxHp (deref woodStart 0) = Some 150
     \<and> map_option buildTime (deref woodStart 0) = Some 4"
    by (auto simp: woodStart_facts(5,6))
  from th p have s: "structures wallPlaced = structures previewWall @ [length (heap previewWall)]"
    and "\<exists>s. deref wallPlaced (length (heap previewWall)) = Some s
              \<and> calls wallPlaced = calls previewWall @
                  [SceneAdd (StructureMesh (length (heap previewWall))),
                   PhysicsAddBody (sid s) (body s),
                   NetworkSend (NetEvent ''build'' (currentBuildMode previewWall)
                      (position (mesh s)) (rotation (mesh s)))]"
    by blast+
  moreover have "deref wallPlaced 0 = Some (newStructure ''structure_1'' 0 Wall (Vector3 0 0 0) (Euler 0 0 0) previewWall)"
    by (simp add: wallPlaced_def placeBuild_valid [of previewWall Wall] previewWall_facts deref_def)
  ultimately have k: "calls wallPlaced = calls previewWall @
        [SceneAdd (StructureMesh 0),
         PhysicsAddBody ''structure_1''
           \<lparr>shape = Vector3 1 1 0.1, mass = 0, bodyPosition = Vector3 0 0 0, quaternion = Euler 0 0 0\<rparr>,
         NetworkSend (NetEvent ''build'' Wall (Vector3 0 0 0) (Euler 0 0 0))]"
    by (auto simp: previewWall_facts newStructure_def Let_def)
  from s have s': "structures wallPlaced = structures previewWall @ [0]"
    by (simp add: previewWall_facts)
  from d i c s' k show ?thesis by blast
qed

text \<open>
  Claim C7. A commit made while the stored validation result is valid (and a ghost is
  selected, as it is whenever the preview has stored a result) returns \<open>true\<close> after the
  whole sequence: the resources of the current material are reduced by the cost of the
  current build mode, a new structure with the ghost's position and rotation is appended
  to the registry, its mesh is added to the scene and its body to the physics world, and
  one event \<^verbatim>\<open>{type: 'build', buildType, position, rotation}\<close> is sent. These three are
  the only calls made to the collaborators.
\<close>

theorem placeBuild_commit:
  assumes "placementValid st" and "ghostPiece st = Some g"
  shows "\<exists>s st'. placeBuild newId now st = (Returned True, st')
      \<and> resources st' = (resources st)
            (currentMaterial st := resources st (currentMaterial st) - costs st (currentBuildMode st))
      \<and> structures st' = structures st @ [length (heap st)]
      \<and> heap st' = heap st @ [s]
      \<and> deref st' (length (heap st)) = Some s
      \<and> sid s = newId \<and> buildType s = currentBuildMode st
      \<and> structMaterial s = currentMaterial st
      \<and> position (mesh s) = position (ghostMeshes st g)
      \<and> rotation (mesh s) = rotation (ghostMeshes st g)
      \<and> geometry (mesh s) = geometry (ghostMeshes st (currentBuildMode st))
      \<and> bodyPosition (body s) = position (ghostMeshes st g)
      \<and> shape (body s) = createPhysicsShape (currentBuildMode st) \<and> mass (body s) = 0
      \<and> quaternion (body s) = rotation (ghostMeshes st g)
      \<and> calls st' = calls st @
            [SceneAdd (StructureMesh (length (heap st))),
             PhysicsAddBody newId (body s),
             NetworkSend (NetEvent ''build'' (currentBuildMode st)
                (position (mesh s)) (rotation (mesh s)))]"
  unfolding placeBuild_valid [OF assms]
  by (simp add: deref_def newStructure_fields)

theorem placeBuild_commit_witness:
  "fst (placeBuild ''structure_1'' 0 previewWall) = Returned True
   \<and> resources wallPlaced Wood = 90 \<and> resources wallPlaced Stone = 100
   \<and> structures wallPlaced = [0]
   \<and> map_option sid (deref wallPlaced 0) = Some ''structure_1''
   \<and> map_option buildType (deref wallPlaced 0) = Some Wall
   \<and> calls wallPlaced = calls previewWall @
        [SceneAdd (StructureMesh 0),
         PhysicsAddBody ''structure_1''
           \<lparr>shape = Vector3 1 1 0.1, mass = 0, bodyPosition = Vector3 0 0 0, quaternion = Euler 0 0 0\<rparr>,
         NetworkSend (NetEvent ''build'' Wall (Vector3 0 0 0) (Euler 0 0 0))]"
proof -
  from placeBuild_commit [of previewWall Wall "''structure_1''" 0, OF previewWall_facts(1,2)]
  obtain s st' where p: "placeBuild ''structure_1'' 0 previewWall = (Returned True, st')"
    and f: "resources st' = (resources previewWall)
            (currentMaterial previewWall :=
               resources previewWall (currentMaterial previewWall)
                 - costs previewWall (currentBuildMode previewWall))"
      "structures st' = structures previewWall @ [length (heap previewWall)]"
      "deref st' (length (heap previewWall)) = Some s"
      "sid s = ''structure_1''" "buildType s = currentBuildMode previewWall"
      "position (mesh s) = position (ghostMeshes previewWall Wall)"
      "rotation (mesh s) = rotation (ghostMeshes previewWall Wall)"
      "bodyPosition (body s) = position (ghostMeshes previewWall Wall)"
      "shape (body s) = createPhysicsShape (currentBuildMode previewWall)" "mass (body s) = 0"
      "quaternion (body s) = rotation (ghostMeshes previewWall Wall)"
      "calls st' = calls previewWall @
            [SceneAdd (StructureMesh (length (heap previewWall))),
             PhysicsAddBody ''structure_1'' (body s),
             NetworkSend (NetEvent ''build'' (currentBuildMode previewWall)
                (position (mesh s)) (rotation (mesh s)))]"
    by blast
  from p have w: "wallPlaced = st'" by (simp add: wallPlaced_def)
  have b: "body s = \<lparr>shape = Vector3 1 1 0.1, mass = 0, bodyPosition = Vector3 0 0 0,
                     quaternion = Euler 0 0 0\<rparr>"
    using f by (intro cannonBody.equality) (simp_all add: previewWall_facts)
  from p f b show ?thesis
    unfolding w by (simp add: previewWall_facts)
qed

text \<open>
  Claim C6 at a concrete run: a wooden wall is created in a new system at the time 0 and
  its timer fires for the first time at 100 ms. Right after creation \<open>hp\<close> is 150; after
  the first tick it is 3.75, and the structure is still under construction.
\<close>

theorem hp_falls_on_first_tick:
  "map_option hp (deref woodStart 0) = Some 150
   \<and> map_option isBuilding (deref woodStart 0) = Some True
   \<and> map_option hp (deref (intervalFires 0 100 woodStart) 0) = Some 3.75
   \<and> map_option isBuilding (deref (intervalFires 0 100 woodStart) 0) = Some True"
proof -
  let ?s = "newStructure ''structure_1'' 0 Wall (Vector3 0 0 0) (Euler 0 0 0) (constructor (\<lambda>m. 100))"
  have d: "deref woodStart 0 = Some ?s" by (rule woodStart_facts(1))
  have b: "isBuilding ?s" by (simp add: newStructure_fields)
  have pr: "progressAt ?s 100 = 1 / 40"
    by (simp add: progressAt_def newStructure_fields woodStart_facts(5,6))
  then have lt: "progressAt ?s 100 < 1" by simp
  have l: "0 < length (heap woodStart)"
    using deref_Some_length [OF d] by simp
  have e: "intervalFires 0 100 woodStart =
      woodStart\<lparr>heap := (heap woodStart)[0 := ?s\<lparr>hp := maxHp ?s * progressAt ?s 100,
                   mesh := (mesh ?s)\<lparr>scale := Vector3 (0.5 + 0.5 * progressAt ?s 100)
                      (0.5 + 0.5 * progressAt ?s 100) (0.5 + 0.5 * progressAt ?s 100)\<rparr>\<rparr>]\<rparr>"
    using animateBuildTick_unfinished [OF d b lt]
    by (simp add: intervalFires_def woodStart_facts(2))
  have after: "deref (intervalFires 0 100 woodStart) 0 =
      Some (?s\<lparr>hp := maxHp ?s * progressAt ?s 100,
                   mesh := (mesh ?s)\<lparr>scale := Vector3 (0.5 + 0.5 * progressAt ?s 100)
                      (0.5 + 0.5 * progressAt ?s 100) (0.5 + 0.5 * progressAt ?s 100)\<rparr>\<rparr>)"
    unfolding e using l by (simp add: deref_heap_same)
  show ?thesis
    unfolding after d by (simp add: pr newStructure_fields woodStart_facts(5,6))
qed

subsection \<open>Validation and commit\<close>

lemma noOverlap_iff:
  "noOverlap sfo ib st bbox as \<longleftrightarrow>
     \<not> (\<exists>a\<in>set as. \<exists>s. deref st a = Some s \<and> ib bbox (sfo (mesh s)))"
  by (induction as) (auto split: option.splits)

lemma checkPlacementValid_poor:
  "resources st (currentMaterial st) < costs st (currentBuildMode st)
     \<Longrightarrow> checkPlacementValid sfo ib st = Returned False"
  by (simp add: checkPlacementValid_def)

lemma checkPlacementValid_ghost:
  "ghostPiece st = Some g \<Longrightarrow>
     checkPlacementValid sfo ib st =
       Returned (\<not> resources st (currentMaterial st) < costs st (currentBuildMode st)
                 \<and> \<not> (\<exists>a\<in>set (structures st). \<exists>s. deref st a = Some s
                          \<and> ib (sfo (ghostMeshes st g)) (sfo (mesh s))))"
  by (simp add: checkPlacementValid_def noOverlap_iff)

lemma moveGhost_fields [simp]:
  "resources (moveGhost g pos rot st) = resources st"
  "costs (moveGhost g pos rot st) = costs st"
  "currentMaterial (moveGhost g pos rot st) = currentMaterial st"
  "currentBuildMode (moveGhost g pos rot st) = currentBuildMode st"
  "ghostPiece (moveGhost g pos rot st) = ghostPiece st"
  "structures (moveGhost g pos rot st) = structures st"
  "heap (moveGhost g pos rot st) = heap st"
  "calls (moveGhost g pos rot st) = calls st"
  "intervals (moveGhost g pos rot st) = intervals st"
  "placementValid (moveGhost g pos rot st) = placementValid st"
  "isBuildingMode (moveGhost g pos rot st) = isBuildingMode st"
  "deref (moveGhost g pos rot st) a = deref st a"
  by (simp_all add: moveGhost_def deref_def)

lemma update_stores:
  assumes "isBuildingMode st" and "ghostPiece st = Some g"
    and "calculatePlacement st hit = Some (pos, rot)"
    and "checkPlacementValid sfo ib (moveGhost g pos rot st) = Returned v"
  shows "placementValid (update sfo ib hit st) = v"
    and "structures (update sfo ib hit st) = structures st"
    and "heap (update sfo ib hit st) = heap st"
    and "resources (update sfo ib hit st) = resources st"
    and "calls (update sfo ib hit st) = calls st"
    and "intervals (update sfo ib hit st) = intervals st"
    and "ghostPiece (update sfo ib hit st) = ghostPiece st"
    and "currentBuildMode (update sfo ib hit st) = currentBuildMode st"
    and "currentMaterial (update sfo ib hit st) = currentMaterial st"
    and "costs (update sfo ib hit st) = costs st"
  using assms by (simp_all add: update_def Let_def)

lemma calculatePlacement_Some:
  "calculatePlacement st (Some (point, normal)) =
     Some (snapToGrid (gridSize st) point, calculateRotationFromNormal normal)"
  by (simp add: calculatePlacement_def)

lemma previewWith15_facts:
  "placementValid previewWith15" "ghostPiece previewWith15 = Some Wall"
  "currentBuildMode previewWith15 = Wall" "currentMaterial previewWith15 = Wood"
  "structures previewWith15 = []" "heap previewWith15 = []"
  "resources previewWith15 = (\<lambda>m. 15)" "costs previewWith15 = (\<lambda>m. 10)"
  by (simp_all add: previewWith15_def groundHit_def update_def enterBuildMode_def setVisible_def
      constructor_def calculatePlacement_def moveGhost_def checkPlacementValid_def
      snapToGrid_def snapAxis_def round_def calculateRotationFromNormal_def createGhostMesh_def
      Let_def)

lemma committedWith15_facts:
  "placementValid committedWith15" "ghostPiece committedWith15 = Some Wall"
  "currentBuildMode committedWith15 = Wall" "currentMaterial committedWith15 = Wood"
  "structures committedWith15 = [0]" "length (heap committedWith15) = 1"
  "resources committedWith15 = (\<lambda>m. 15)(Wood := 5)" "costs committedWith15 = (\<lambda>m. 10)"
  by (simp_all add: committedWith15_def placeBuild_valid [OF previewWith15_facts(1,2)]
      previewWith15_facts)

text \<open>
  Claim C3, as stated, fails at a state that the methods alone reach: a player with 15
  wood previews a wall and commits it. The player is left with 5 wood, below the cost of
  10, and \<^verbatim>\<open>checkPlacementValid\<close> returns \<open>false\<close> there; yet a second commit returns
  \<open>true\<close>, takes the wood to \<open>- 5\<close> and adds a second structure to the registry, since
  \<^verbatim>\<open>placeBuild\<close> reads only the validity stored by the earlier preview.
\<close>

theorem insufficient_resources_counterexample:
  "resources committedWith15 (currentMaterial committedWith15) = 5
   \<and> costs committedWith15 (currentBuildMode committedWith15) = 10
   \<and> checkPlacementValid box3_setFromObject box3_intersectsBox committedWith15 = Returned False
   \<and> fst (placeBuild ''structure_2'' 1 committedWith15) = Returned True
   \<and> resources (snd (placeBuild ''structure_2'' 1 committedWith15)) Wood = - 5
   \<and> structures committedWith15 = [0]
   \<and> structures (snd (placeBuild ''structure_2'' 1 committedWith15)) = [0, 1]"
proof -
  have r: "resources committedWith15 (currentMaterial committedWith15) = 5
      \<and> costs committedWith15 (currentBuildMode committedWith15) = 10"
    by (simp add: committedWith15_facts)
  then have c: "checkPlacementValid box3_setFromObject box3_intersectsBox committedWith15
      = Returned False"
    by (simp add: checkPlacementValid_poor)
  have p: "fst (placeBuild ''structure_2'' 1 committedWith15) = Returned True
     \<and> resources (snd (placeBuild ''structure_2'' 1 committedWith15)) Wood = - 5
     \<and> structures (snd (placeBuild ''structure_2'' 1 committedWith15)) = [0, 1]"
    by (simp add: placeBuild_valid [OF committedWith15_facts(1,2)] committedWith15_facts)
  from r c p committedWith15_facts(5) show ?thesis by blast
qed

text \<open>
  Claim C3, amended. Whenever the player's resources of the selected material are below
  the cost of the selected build mode, \<^verbatim>\<open>checkPlacementValid\<close> returns \<open>false\<close>,
  whatever the structures and the ghost are: the rejection is the one of the resource
  check (the source returns a bare boolean; the reason is the check that fails). When the
  preview runs this validation (\<^verbatim>\<open>update\<close> in build mode with a ghost and a hit), the
  result is stored, and the commit attempt that follows returns \<open>false\<close> and changes
  nothing: registry, structure objects, resources and collaborator calls are as before.
  In general a commit attempt changes nothing whenever the stored validity is
  \<open>false\<close>; \<^verbatim>\<open>placeBuild\<close> runs no validation of its own.
\<close>

theorem insufficient_resources_rejected:
  assumes "resources st (currentMaterial st) < costs st (currentBuildMode st)"
  shows "checkPlacementValid sfo ib st = Returned False
     \<and> (isBuildingMode st \<and> ghostPiece st = Some g \<longrightarrow>
          \<not> placementValid (update sfo ib (Some hit) st)
          \<and> placeBuild newId now (update sfo ib (Some hit) st)
               = (Returned False, update sfo ib (Some hit) st)
          \<and> structures (update sfo ib (Some hit) st) = structures st
          \<and> heap (update sfo ib (Some hit) st) = heap st
          \<and> resources (update sfo ib (Some hit) st) = resources st
          \<and> calls (update sfo ib (Some hit) st) = calls st)
     \<and> (\<not> placementValid st \<longrightarrow> placeBuild newId now st = (Returned False, st))"
proof (intro conjI impI)
  show "checkPlacementValid sfo ib st = Returned False"
    using assms by (rule checkPlacementValid_poor)
next
  assume "\<not> placementValid st"
  then show "placeBuild newId now st = (Returned False, st)" by (rule placeBuild_invalid)
next
  assume h: "isBuildingMode st \<and> ghostPiece st = Some g"
  obtain point normal where hit: "hit = (point, normal)" by (cases hit)
  let ?pos = "snapToGrid (gridSize st) point"
  let ?rot = "calculateRotationFromNormal normal"
  have c: "calculatePlacement st (Some hit) = Some (?pos, ?rot)"
    by (simp add: hit calculatePlacement_Some)
  have r: "checkPlacementValid sfo ib (moveGhost g ?pos ?rot st) = Returned False"
    using assms by (simp add: checkPlacementValid_poor)
  note u = update_stores [OF _ _ c r]
  from h show nv: "\<not> placementValid (update sfo ib (Some hit) st)" by (simp add: u(1))
  from nv show "placeBuild newId now (update sfo ib (Some hit) st)
               = (Returned False, update sfo ib (Some hit) st)"
    by (rule placeBuild_invalid)
  from h show "structures (update sfo ib (Some hit) st) = structures st" by (simp add: u(2))
  from h show "heap (update sfo ib (Some hit) st) = heap st" by (simp add: u(3))
  from h show "resources (update sfo ib (Some hit) st) = resources st" by (simp add: u(4))
  from h show "calls (update sfo ib (Some hit) st) = calls st" by (simp add: u(5))
qed

lemma poorStart_facts:
  "resources (enterBuildMode (constructor (\<lambda>m. 5))) Wood = 5"
  "costs (enterBuildMode (constructor (\<lambda>m. 5))) Wall = 10"
  "currentMaterial (enterBuildMode (constructor (\<lambda>m. 5))) = Wood"
  "currentBuildMode (enterBuildMode (constructor (\<lambda>m. 5))) = Wall"
  "isBuildingMode (enterBuildMode (constructor (\<lambda>m. 5)))"
  "ghostPiece (enterBuildMode (constructor (\<lambda>m. 5))) = Some Wall"
  "structures (enterBuildMode (constructor (\<lambda>m. 5))) = []"
  by (simp_all add: enterBuildMode_def setVisible_def constructor_def)

theorem insufficient_resources_rejected_witness:
  "resources (enterBuildMode (constructor (\<lambda>m. 5))) Wood = 5
   \<and> costs (enterBuildMode (constructor (\<lambda>m. 5))) Wall = 10
   \<and> checkPlacementValid box3_setFromObject box3_intersectsBox
        (enterBuildMode (constructor (\<lambda>m. 5))) = Returned False
   \<and> \<not> placementValid poorPreview
   \<and> placeBuild ''structure_1'' 0 poorPreview = (Returned False, poorPreview)
   \<and> structures poorPreview = []
   \<and> resources poorPreview Wood = 5"
proof -
  let ?st = "enterBuildMode (constructor (\<lambda>m. 5))"
  have lt: "resources ?st (currentMaterial ?st) < costs ?st (currentBuildMode ?st)"
    by (simp add: poorStart_facts)
  have p: "poorPreview = update box3_setFromObject box3_intersectsBox
             (Some (Vector3 0.3 0.2 (- 0.4), Vector3 0 1 0)) ?st"
    by (simp add: poorPreview_def groundHit_def)
  from insufficient_resources_rejected [OF lt, of box3_setFromObject box3_intersectsBox Wall
      "(Vector3 0.3 0.2 (- 0.4), Vector3 0 1 0)" "''structure_1''" 0]
  show ?thesis
    unfolding p [symmetric] by (simp add: poorStart_facts)
qed


lemma wallPlaced_facts:
  "placementValid wallPlaced" "ghostPiece wallPlaced = Some Wall"
  "currentBuildMode wallPlaced = Wall" "currentMaterial wallPlaced = Wood"
  "isBuildingMode wallPlaced"
  "structures wallPlaced = [0]" "intervals wallPlaced = [0]"
  "heap wallPlaced = [newStructure ''structure_1'' 0 Wall (Vector3 0 0 0) (Euler 0 0 0) previewWall]"
  "resources wallPlaced = (\<lambda>m. 100)(Wood := 90)" "costs wallPlaced = (\<lambda>m. 10)"
  "ghostMeshes wallPlaced = ghostMeshes previewWall"
  "gridSize wallPlaced = 2"
  by (simp_all add: wallPlaced_def placeBuild_valid [OF previewWall_facts(1,2)] previewWall_facts)

lemma previewWall_ghost:
  "scale (ghostMeshes previewWall Wall) = Vector3 1 1 1"
  "position (ghostMeshes previewWall Floor) = Vector3 0 0 0"
  "rotation (ghostMeshes previewWall Floor) = Euler 0 0 0"
  "scale (ghostMeshes previewWall Floor) = Vector3 1 1 1"
  by (simp_all add: previewWall_def groundHit_def update_def enterBuildMode_def setVisible_def
      constructor_def calculatePlacement_def moveGhost_def checkPlacementValid_def
      snapToGrid_def snapAxis_def round_def calculateRotationFromNormal_def createGhostMesh_def
      Let_def)

lemma wall_boxes:
  "box3_setFromObject (ghostMeshes previewWall Wall)
     = Box3 (Vector3 (- 1) (- 1) (- 0.1)) (Vector3 1 1 0.1)"
  "box3_setFromObject (mesh (newStructure ''structure_1'' 0 Wall (Vector3 0 0 0) (Euler 0 0 0) previewWall))
     = Box3 (Vector3 (- 1) (- 1) (- 0.1)) (Vector3 1 1 0.1)"
  by (simp_all add: box3_setFromObject_def Let_def previewWall_facts previewWall_ghost
      newStructure_fields)

text \<open>
  Claim C10. \<^verbatim>\<open>placeBuild\<close> runs no validation: what it returns is decided by the stored
  flag \<^verbatim>\<open>this.placementValid\<close> alone (given a ghost). So a change between the last
  preview and the commit goes unnoticed. With the ledger: the preview of the wall is
  valid, the player's resources then drop to 5, a validation at that moment returns
  \<open>false\<close>, and yet the commit returns \<open>true\<close>, leaves the resources at \<open>- 5\<close> and
  creates the structure. With the structure set: right after a wall is placed the ghost
  overlaps it and a validation returns \<open>false\<close>, and yet a second commit without a new
  preview places a second structure.
\<close>

theorem placeBuild_trusts_stored_flag:
  "fst (placeBuild newId now st) =
     (if placementValid st
      then (case ghostPiece st of None \<Rightarrow> Threw | Some g \<Rightarrow> Returned True)
      else Returned False)
   \<and> placementValid previewWall
   \<and> checkPlacementValid box3_setFromObject box3_intersectsBox spentAfterPreview = Returned False
   \<and> fst (placeBuild ''structure_1'' 0 spentAfterPreview) = Returned True
   \<and> resources (snd (placeBuild ''structure_1'' 0 spentAfterPreview)) Wood = - 5
   \<and> structures spentAfterPreview = []
   \<and> structures (snd (placeBuild ''structure_1'' 0 spentAfterPreview)) = [0]
   \<and> checkPlacementValid box3_setFromObject box3_intersectsBox wallPlaced = Returned False
   \<and> fst (placeBuild ''structure_2'' 1 wallPlaced) = Returned True
   \<and> structures (snd (placeBuild ''structure_2'' 1 wallPlaced)) = [0, 1]
   \<and> resources (snd (placeBuild ''structure_2'' 1 wallPlaced)) Wood = 80"
proof -
  have flag: "fst (placeBuild newId now st) =
     (if placementValid st
      then (case ghostPiece st of None \<Rightarrow> Threw | Some g \<Rightarrow> Returned True)
      else Returned False)"
  proof (cases "placementValid st")
    case False
    then show ?thesis by (simp add: placeBuild_invalid)
  next
    case True
    show ?thesis
    proof (cases "ghostPiece st")
      case None
      with True show ?thesis by (simp add: placeBuild_def Let_def)
    next
      case (Some g)
      with True show ?thesis by (simp add: placeBuild_valid)
    qed
  qed
  have sp: "placementValid spentAfterPreview" "ghostPiece spentAfterPreview = Some Wall"
    "resources spentAfterPreview = (\<lambda>m. 5)" "costs spentAfterPreview = (\<lambda>m. 10)"
    "currentMaterial spentAfterPreview = Wood" "currentBuildMode spentAfterPreview = Wall"
    "structures spentAfterPreview = []" "heap spentAfterPreview = []"
    by (simp_all add: spentAfterPreview_def previewWall_facts)
  have c1: "checkPlacementValid box3_setFromObject box3_intersectsBox spentAfterPreview = Returned False"
    by (simp add: checkPlacementValid_poor sp)
  have p1: "fst (placeBuild ''structure_1'' 0 spentAfterPreview) = Returned True
     \<and> resources (snd (placeBuild ''structure_1'' 0 spentAfterPreview)) Wood = - 5
     \<and> structures (snd (placeBuild ''structure_1'' 0 spentAfterPreview)) = [0]"
    by (simp add: placeBuild_valid [OF sp(1,2)] sp)
  have d: "deref wallPlaced 0 =
      Some (newStructure ''structure_1'' 0 Wall (Vector3 0 0 0) (Euler 0 0 0) previewWall)"
    by (simp add: deref_def wallPlaced_facts)
  have "box3_intersectsBox (box3_setFromObject (ghostMeshes wallPlaced Wall))
      (box3_setFromObject (mesh (newStructure ''structure_1'' 0 Wall (Vector3 0 0 0) (Euler 0 0 0) previewWall)))"
    by (simp add: wallPlaced_facts wall_boxes box3_intersectsBox_def)
  then have c2: "checkPlacementValid box3_setFromObject box3_intersectsBox wallPlaced = Returned False"
    by (simp add: checkPlacementValid_ghost [OF wallPlaced_facts(2)] wallPlaced_facts(6) d)
  have p2: "fst (placeBuild ''structure_2'' 1 wallPlaced) = Returned True
     \<and> structures (snd (placeBuild ''structure_2'' 1 wallPlaced)) = [0, 1]
     \<and> resources (snd (placeBuild ''structure_2'' 1 wallPlaced)) Wood = 80"
    by (simp add: placeBuild_valid [OF wallPlaced_facts(1,2)] wallPlaced_facts)
  from flag previewWall_facts(1) c1 p1 sp(7) c2 p2 show ?thesis by blast
qed

lemma switchBuildMode_fields [simp]:
  "currentBuildMode (switchBuildMode mode st) = mode"
  "ghostPiece (switchBuildMode mode st) = Some mode"
  "currentMaterial (switchBuildMode mode st) = currentMaterial st"
  "isBuildingMode (switchBuildMode mode st) = isBuildingMode st"
  "placementValid (switchBuildMode mode st) = placementValid st"
  "structures (switchBuildMode mode st) = structures st"
  "heap (switchBuildMode mode st) = heap st"
  "intervals (switchBuildMode mode st) = intervals st"
  "resources (switchBuildMode mode st) = resources st"
  "costs (switchBuildMode mode st) = costs st"
  "calls (switchBuildMode mode st) = calls st"
  "gridSize (switchBuildMode mode st) = gridSize st"
  "deref (switchBuildMode mode st) a = deref st a"
  by (simp_all add: switchBuildMode_def setVisible_def deref_def Let_def split: option.splits)




subsection \<open>Damage and destruction\<close>

lemma findStructure_Some:
  assumes "findStructure st structureId = Some a"
  shows "a \<in> set (structures st)" and "\<exists>s. deref st a = Some s \<and> sid s = structureId"
  using assms
  by (auto simp: findStructure_def find_Some_iff in_set_conv_nth split: option.splits)

lemma findStructure_None_iff:
  "findStructure st structureId = None \<longleftrightarrow>
     (\<forall>a\<in>set (structures st). map_option sid (deref st a) \<noteq> Some structureId)"
  by (auto simp: findStructure_def find_None_iff split: option.splits)

lemma damageStructure_unknown:
  "findStructure st structureId = None \<Longrightarrow> damageStructure structureId damage st = st"
  by (simp add: damageStructure_def)

lemma damageStructure_destroyed:
  assumes "findStructure st structureId = Some a" and "deref st a = Some s"
    and "hp s - damage \<le> 0"
  shows "damageStructure structureId damage st =
           st\<lparr>heap := (heap st)[a := s\<lparr>hp := hp s - damage\<rparr>],
              calls := calls st @ [SceneRemove (StructureMesh a), PhysicsRemoveBody (sid s)],
              structures := remove1 a (structures st)\<rparr>"
  using assms by (simp add: damageStructure_def destroyStructure_def call_def Let_def)

lemma damageStructure_survives:
  assumes "findStructure st structureId = Some a" and "deref st a = Some s"
    and "\<not> hp s - damage \<le> 0"
  shows "damageStructure structureId damage st = st\<lparr>heap := (heap st)[a := s\<lparr>hp := hp s - damage\<rparr>]\<rparr>"
  using assms by (simp add: damageStructure_def Let_def)

lemma registryIds_distinct_other:
  assumes "distinct (registryIds st)" and "a \<in> set (structures st)" and "b \<in> set (structures st)"
    and "a \<noteq> b"
  shows "map_option sid (deref st a) \<noteq> map_option sid (deref st b)"
proof -
  from assms(1) have "inj_on (\<lambda>a. map_option sid (deref st a)) (set (structures st))"
    by (simp add: registryIds_def distinct_map)
  with assms(2-4) show ?thesis by (auto dest: inj_onD)
qed

lemma registryIds_distinct_structures:
  "distinct (registryIds st) \<Longrightarrow> distinct (structures st)"
  by (simp add: registryIds_def distinct_map)

lemma wallBuilt_facts:
  "structures wallBuilt = [0]" "calls wallBuilt = calls wallPlaced" "intervals wallBuilt = []"
  "map_option hp (deref wallBuilt 0) = Some 150"
  "map_option sid (deref wallBuilt 0) = Some ''structure_1''"
  "map_option isBuilding (deref wallBuilt 0) = Some False"
  "length (heap wallBuilt) = 1"
  "findStructure wallBuilt ''structure_1'' = Some 0"
  "registryIds wallBuilt = [Some ''structure_1'']"
  by (simp_all add: wallBuilt_def intervalFires_def animateBuildTick_def deref_def
      findStructure_def registryIds_def wallPlaced_facts newStructure_fields previewWall_facts
      initialMaterialProps.simps Let_def)

text \<open>
  Claim C5, as stated, fails on the built wall (\<open>hp\<close> 150) hit with 200 damage: the
  structure is removed, but its \<open>hp\<close> is left at \<open>- 50\<close>; nothing clamps it to zero.
\<close>

theorem damageStructure_counterexample:
  "map_option hp (deref wallBuilt 0) = Some 150
   \<and> findStructure wallBuilt ''structure_1'' = Some 0
   \<and> map_option hp (deref (damageStructure ''structure_1'' 200 wallBuilt) 0) = Some (- 50)
   \<and> map_option hp (deref (damageStructure ''structure_1'' 200 wallBuilt) 0) \<noteq> Some 0
   \<and> findStructure (damageStructure ''structure_1'' 200 wallBuilt) ''structure_1'' = None"
proof -
  obtain s where d: "deref wallBuilt 0 = Some s" and h: "hp s = 150"
    using wallBuilt_facts(4) by auto
  have f: "findStructure wallBuilt ''structure_1'' = Some 0"
    by (rule wallBuilt_facts(8))
  have le: "hp s - 200 \<le> 0" by (simp add: h)
  have l: "0 < length (heap wallBuilt)" by (simp add: wallBuilt_facts(7))
  note e = damageStructure_destroyed [OF f d le]
  have after: "map_option hp (deref (damageStructure ''structure_1'' 200 wallBuilt) 0) = Some (- 50)"
    using l by (simp add: e deref_def h)
  have gone: "findStructure (damageStructure ''structure_1'' 200 wallBuilt) ''structure_1'' = None"
    by (simp add: e findStructure_def wallBuilt_facts(1))
  have ne: "map_option hp (deref (damageStructure ''structure_1'' 200 wallBuilt) 0) \<noteq> Some 0"
    unfolding after by simp
  from wallBuilt_facts(4) f after ne gone show ?thesis by blast
qed


text \<open>
  Claim C5, amended. \<^verbatim>\<open>damageStructure\<close> subtracts the damage from \<open>hp\<close> without
  clamping. When the result is zero or less, the structure is removed from the registry:
  with unique ids in the registry a later \<^verbatim>\<open>find\<close> for the id finds nothing, and scene
  removal and physics-body removal are each called exactly once (they are the only
  calls made); the removed object keeps the difference as its \<open>hp\<close>. When the result is
  above zero the structure stays, with the difference as its \<open>hp\<close>, and no call is made.
\<close>

theorem damageStructure_removes:
  assumes "findStructure st structureId = Some a" and "deref st a = Some s"
    and "distinct (registryIds st)"
  shows "(hp s - damage \<le> 0 \<longrightarrow>
            findStructure (damageStructure structureId damage st) structureId = None
            \<and> structures (damageStructure structureId damage st) = remove1 a (structures st)
            \<and> a \<notin> set (structures (damageStructure structureId damage st))
            \<and> calls (damageStructure structureId damage st)
                = calls st @ [SceneRemove (StructureMesh a), PhysicsRemoveBody structureId]
            \<and> map_option hp (deref (damageStructure structureId damage st) a) = Some (hp s - damage))
       \<and> (\<not> hp s - damage \<le> 0 \<longrightarrow>
            findStructure (damageStructure structureId damage st) structureId = Some a
            \<and> structures (damageStructure structureId damage st) = structures st
            \<and> calls (damageStructure structureId damage st) = calls st
            \<and> map_option hp (deref (damageStructure structureId damage st) a) = Some (hp s - damage))"
proof (intro conjI impI)
  note f = findStructure_Some [OF assms(1)]
  from f(2) assms(2) have id: "sid s = structureId" by simp
  from assms(2) have l: "a < length (heap st)" by (simp add: deref_Some_length)
  from assms(3) have ds: "distinct (structures st)" by (rule registryIds_distinct_structures)
  {
    assume le: "hp s - damage \<le> 0"
    let ?st' = "damageStructure structureId damage st"
    note e = damageStructure_destroyed [OF assms(1,2) le]
    show "structures ?st' = remove1 a (structures st)" by (simp add: e)
    show "a \<notin> set (structures ?st')" using ds by (simp add: e)
    show "calls ?st' = calls st @ [SceneRemove (StructureMesh a), PhysicsRemoveBody structureId]"
      by (simp add: e id)
    show "map_option hp (deref ?st' a) = Some (hp s - damage)"
      using l by (simp add: e deref_def)
    show "findStructure ?st' structureId = None"
      unfolding findStructure_None_iff
    proof
      fix b assume "b \<in> set (structures ?st')"
      then have b: "b \<in> set (structures st)" and ne: "b \<noteq> a"
        using ds by (auto simp: e)
      have "deref ?st' b = deref st b"
        using ne by (simp add: e deref_def)
      moreover have "map_option sid (deref st b) \<noteq> map_option sid (deref st a)"
        using registryIds_distinct_other [OF assms(3) b f(1) ne] .
      ultimately show "map_option sid (deref ?st' b) \<noteq> Some structureId"
        using assms(2) id by simp
    qed
  }
  {
    assume gt: "\<not> hp s - damage \<le> 0"
    let ?st' = "damageStructure structureId damage st"
    note e = damageStructure_survives [OF assms(1,2) gt]
    show "structures ?st' = structures st" by (simp add: e)
    show "calls ?st' = calls st" by (simp add: e)
    show "map_option hp (deref ?st' a) = Some (hp s - damage)"
      using l by (simp add: e deref_def)
    have same: "map_option sid (deref ?st' b) = map_option sid (deref st b)" for b
      using l assms(2) by (auto simp: e deref_def nth_list_update)
    have "(\<lambda>b. case deref ?st' b of None \<Rightarrow> False | Some s \<Rightarrow> sid s = structureId)
        = (\<lambda>b. case deref st b of None \<Rightarrow> False | Some s \<Rightarrow> sid s = structureId)"
    proof
      fix b
      from same [of b]
      show "(case deref ?st' b of None \<Rightarrow> False | Some s \<Rightarrow> sid s = structureId)
          = (case deref st b of None \<Rightarrow> False | Some s \<Rightarrow> sid s = structureId)"
        by (auto split: option.splits)
    qed
    then show "findStructure ?st' structureId = Some a"
      using assms(1) by (simp add: findStructure_def e)
  }
qed

theorem damageStructure_removes_witness:
  "findStructure (damageStructure ''structure_1'' 200 wallBuilt) ''structure_1'' = None
   \<and> structures (damageStructure ''structure_1'' 200 wallBuilt) = []
   \<and> calls (damageStructure ''structure_1'' 200 wallBuilt)
       = calls wallBuilt @ [SceneRemove (StructureMesh 0), PhysicsRemoveBody ''structure_1'']
   \<and> map_option hp (deref (damageStructure ''structure_1'' 200 wallBuilt) 0) = Some (- 50)
   \<and> structures (damageStructure ''structure_1'' 50 wallBuilt) = [0]
   \<and> calls (damageStructure ''structure_1'' 50 wallBuilt) = calls wallBuilt
   \<and> map_option hp (deref (damageStructure ''structure_1'' 50 wallBuilt) 0) = Some 100"
proof -
  obtain s where d: "deref wallBuilt 0 = Some s" and h: "hp s = 150"
    using wallBuilt_facts(4) by auto
  have u: "distinct (registryIds wallBuilt)" by (simp add: wallBuilt_facts(9))
  note th = damageStructure_removes [OF wallBuilt_facts(8) d u]
  have le: "hp s - 200 \<le> 0" and gt: "\<not> hp s - 50 \<le> 0" by (simp_all add: h)
  from th [of 200] le have
    "findStructure (damageStructure ''structure_1'' 200 wallBuilt) ''structure_1'' = None
     \<and> structures (damageStructure ''structure_1'' 200 wallBuilt) = remove1 0 (structures wallBuilt)
     \<and> calls (damageStructure ''structure_1'' 200 wallBuilt)
         = calls wallBuilt @ [SceneRemove (StructureMesh 0), PhysicsRemoveBody ''structure_1'']
     \<and> map_option hp (deref (damageStructure ''structure_1'' 200 wallBuilt) 0) = Some (hp s - 200)"
    by blast
  moreover from th [of 50] gt have
    "structures (damageStructure ''structure_1'' 50 wallBuilt) = structures wallBuilt
     \<and> calls (damageStructure ''structure_1'' 50 wallBuilt) = calls wallBuilt
     \<and> map_option hp (deref (damageStructure ''structure_1'' 50 wallBuilt) 0) = Some (hp s - 50)"
    by blast
  ultimately show ?thesis by (simp add: h wallBuilt_facts(1))
qed

end
